theory Spec2Isabelle
  imports
    Main
    "HOL-Library.Multiset"
    "HOL-Library.Char_ord"
    "HOL-Library.List_Lexorder"
    "HOL-Library.Product_Lexorder"
    "HOL-Library.Word"
begin

section \<open>The CV renderer \<^verbatim>\<open>src/_latex/cv.11ty.js\<close>\<close>

text \<open>
  The renderer is one JavaScript class, \<^verbatim>\<open>texCV\<close>, whose \<^verbatim>\<open>render(data)\<close> method builds a
  LaTeX document from the Eleventy data context and pipes it to LuaLaTeX.  The embedding
  follows the file's own table of contents: helper functions, section functions, the
  document body, the compiler call.

  JavaScript is dynamically typed, so the values that the data files put into the context
  are modelled by one datatype.  Numbers are the integers from \<open>- 2 ^ 53\<close> to
  \<open>2 ^ 53 - 1\<close>, kept as signed words of 54 bits and read with \<open>sint\<close>: a double holds
  each of them exactly, and JavaScript prints each of them digit by digit.  (Beyond that range
  a double no longer holds every integer and its text is rounded, from \<open>10 ^ 21\<close> on it is
  written with an exponent; fractions and infinities are no values of the model either.)
  \<^verbatim>\<open>NaN\<close> only arises as the result of date functions and is the \<open>None\<close> of
  \<open>int option\<close> there.  Strings are lists of 8-bit characters, which is the source's
  string type on ASCII text.
\<close>

subsection \<open>Values, truthiness, conversion to text\<close>

datatype jsval = JUndefined | JNull | JBool bool | JNum "54 word" | JStr string

abbreviation bs :: char where "bs \<equiv> CHR 0x5C"
abbreviation nl :: char where "nl \<equiv> CHR 0x0A"
abbreviation sq :: char where "sq \<equiv> CHR 0x27"
abbreviation bq :: char where "bq \<equiv> CHR 0x60"

text \<open>\<^verbatim>\<open>x ? a : b\<close>, \<^verbatim>\<open>x && y\<close> and \<^verbatim>\<open>.filter((x) => x)\<close> test truthiness.\<close>

fun truthy :: "jsval \<Rightarrow> bool" where
  "truthy JUndefined = False"
| "truthy JNull = False"
| "truthy (JBool b) = b"
| "truthy (JNum n) = (n \<noteq> 0)"
| "truthy (JStr s) = (s \<noteq> [])"

definition digit_char :: "nat \<Rightarrow> char" where
  "digit_char n = ''0123456789'' ! n"

function digits :: "nat \<Rightarrow> string" where
  "digits n = (if n < 10 then [digit_char n] else digits (n div 10) @ [digit_char (n mod 10)])"
  by pat_completeness auto
termination
  by (relation "measure id") auto

declare digits.simps [simp del]

definition intToString :: "int \<Rightarrow> string" where
  "intToString i = (if i < 0 then CHR ''-'' # digits (nat (- i)) else digits (nat i))"

text \<open>A JavaScript number that is an integer or \<^verbatim>\<open>NaN\<close>, as text.\<close>

definition numToString :: "int option \<Rightarrow> string" where
  "numToString n = (case n of None \<Rightarrow> ''NaN'' | Some i \<Rightarrow> intToString i)"

text \<open>\<^verbatim>\<open>${x}\<close> in a template literal is \<^verbatim>\<open>ToString(x)\<close>.\<close>

fun toString :: "jsval \<Rightarrow> string" where
  "toString JUndefined = ''undefined''"
| "toString JNull = ''null''"
| "toString (JBool b) = (if b then ''true'' else ''false'')"
| "toString (JNum n) = intToString (sint n)"
| "toString (JStr s) = s"

text \<open>\<^verbatim>\<open>Array.prototype.join\<close>: the elements' texts with the separator between them;
  \<^verbatim>\<open>undefined\<close> and \<^verbatim>\<open>null\<close> elements give the empty text.\<close>

fun join :: "string \<Rightarrow> string list \<Rightarrow> string" where
  "join sep [] = []"
| "join sep [x] = x"
| "join sep (x # y # ys) = x @ sep @ join sep (y # ys)"

fun joinItem :: "jsval \<Rightarrow> string" where
  "joinItem JUndefined = []"
| "joinItem JNull = []"
| "joinItem v = toString v"

definition joinVals :: "string \<Rightarrow> jsval list \<Rightarrow> string" where
  "joinVals sep vs = join sep (map joinItem vs)"

subsection \<open>Dates\<close>

text \<open>
  Time values are milliseconds since the epoch, \<open>None\<close> for \<^verbatim>\<open>NaN\<close> (an invalid date).
  The day and year arithmetic is that of ECMA-262, section "Time Values and Time Range";
  \<open>div\<close> on \<open>int\<close> is the floor division used there.
\<close>

definition msPerDay :: int where
  "msPerDay = 86400000"

definition Day :: "int \<Rightarrow> int" where
  "Day t = t div msPerDay"

definition DayFromYear :: "int \<Rightarrow> int" where
  "DayFromYear y = 365 * (y - 1970) + (y - 1969) div 4 - (y - 1901) div 100 + (y - 1601) div 400"

text \<open>\<^verbatim>\<open>YearFromTime(t)\<close> is the largest year \<open>y\<close> whose first day is not after \<open>t\<close>.  It is
  found by walking from an estimate, down while the year starts after the day and up while
  the next year does not.\<close>

function year_search :: "int \<Rightarrow> int \<Rightarrow> int" where
  "year_search d y =
     (if d < DayFromYear y then year_search d (y - 1)
      else if DayFromYear (y + 1) \<le> d then year_search d (y + 1)
      else y)"
  by pat_completeness auto
termination
proof (relation "measure (\<lambda>(d, y). nat (DayFromYear y - d) + nat (d - DayFromYear (y + 1) + 1))")
  have step: "DayFromYear z < DayFromYear (z + 1)" for z
  proof -
    define p q r where "p = (z - 1969) div 4" and "q = (z - 1901) div 100"
      and "r = (z - 1601) div 400"
    define p' q' r' where "p' = (z + 1 - 1969) div 4" and "q' = (z + 1 - 1901) div 100"
      and "r' = (z + 1 - 1601) div 400"
    have a: "p \<le> p'"
      unfolding p_def p'_def by (rule zdiv_mono1) simp_all
    have "q' \<le> (z - 1901 + 100) div 100"
      unfolding q'_def by (rule zdiv_mono1) simp_all
    then have b: "q' \<le> q + 1"
      unfolding q_def by simp
    have c: "r \<le> r'"
      unfolding r_def r'_def by (rule zdiv_mono1) simp_all
    have "365 * (z - 1970) + p - q + r < 365 * (z + 1 - 1970) + p' - q' + r'"
      using a b c by (simp add: algebra_simps)
    then show ?thesis
      unfolding DayFromYear_def p_def q_def r_def p'_def q'_def r'_def .
  qed
  show "wf (measure (\<lambda>(d, y). nat (DayFromYear y - d) + nat (d - DayFromYear (y + 1) + 1)))"
    by simp
  show "((d, y - 1), (d, y)) \<in> measure (\<lambda>(d, y). nat (DayFromYear y - d) + nat (d - DayFromYear (y + 1) + 1))"
    if "d < DayFromYear y" for d y
    using that step [of "y - 1"] step [of y] by simp
  show "((d, y + 1), (d, y)) \<in> measure (\<lambda>(d, y). nat (DayFromYear y - d) + nat (d - DayFromYear (y + 1) + 1))"
    if "\<not> d < DayFromYear y" "DayFromYear (y + 1) \<le> d" for d y
    using that step [of "y + 1"] by simp
qed

declare year_search.simps [simp del]

definition YearFromTime :: "int \<Rightarrow> int" where
  "YearFromTime t = year_search (Day t) (1970 + Day t div 365)"

definition InLeapYear :: "int \<Rightarrow> bool" where
  "InLeapYear y = ((y mod 4 = 0 \<and> y mod 100 \<noteq> 0) \<or> y mod 400 = 0)"

definition DaysInMonth :: "int \<Rightarrow> int \<Rightarrow> int" where
  "DaysInMonth y m =
     (if m = 2 then (if InLeapYear y then 29 else 28)
      else if m = 4 \<or> m = 6 \<or> m = 9 \<or> m = 11 then 30 else 31)"

definition daysBeforeMonth :: "int \<Rightarrow> int \<Rightarrow> int" where
  "daysBeforeMonth y m = sum_list (map (DaysInMonth y) [1 .. m - 1])"

definition TimeClip :: "int \<Rightarrow> int option" where
  "TimeClip t = (if \<bar>t\<bar> > 8640000000000000 then None else Some t)"

text \<open>The time value of midnight UTC of a calendar date, \<open>None\<close> when month or day is out of
  range.\<close>

definition makeDateUTC :: "int \<Rightarrow> int \<Rightarrow> int \<Rightarrow> int option" where
  "makeDateUTC y m d =
     (if 1 \<le> m \<and> m \<le> 12 \<and> 1 \<le> d \<and> d \<le> DaysInMonth y m
      then Some ((DayFromYear y + daysBeforeMonth y m + d - 1) * msPerDay)
      else None)"

definition is_digit :: "char \<Rightarrow> bool" where
  "is_digit c = (CHR ''0'' \<le> c \<and> c \<le> CHR ''9'')"

definition all_digits :: "string \<Rightarrow> bool" where
  "all_digits s = (filter (\<lambda>c. \<not> is_digit c) s = [])"

definition decimal :: "string \<Rightarrow> int" where
  "decimal s = foldl (\<lambda>n c. 10 * n + (int (of_char c) - 48)) 0 s"

text \<open>
  The date-only forms of the ECMA-262 date-time string format, \<^verbatim>\<open>YYYY\<close>, \<^verbatim>\<open>YYYY-MM\<close> and
  \<^verbatim>\<open>YYYY-MM-DD\<close>, which every engine reads as midnight UTC.  Every other text (date-time
  forms, expanded years, out-of-range fields, free text) is left to the engine.
\<close>

definition parseDateOnly :: "string \<Rightarrow> int option" where
  "parseDateOnly s =
     (if length s = 10 \<and> s ! 4 = CHR ''-'' \<and> s ! 7 = CHR ''-'' \<and> all_digits (take 4 s)
          \<and> all_digits (take 2 (drop 5 s)) \<and> all_digits (drop 8 s)
      then makeDateUTC (decimal (take 4 s)) (decimal (take 2 (drop 5 s))) (decimal (drop 8 s))
      else if length s = 7 \<and> s ! 4 = CHR ''-'' \<and> all_digits (take 4 s) \<and> all_digits (drop 5 s)
      then makeDateUTC (decimal (take 4 s)) (decimal (drop 5 s)) 1
      else if length s = 4 \<and> all_digits s
      then makeDateUTC (decimal s) 1 1
      else None)"

text \<open>
  What the program takes from the JavaScript engine and its host rather than from its own
  text: how \<^verbatim>\<open>Date.parse\<close> reads a text that is not in the standard format
  (implementation-defined by ECMA-262; \<open>None\<close> is \<^verbatim>\<open>NaN\<close>), the offset of local time from UTC
  in milliseconds at a given time value, and the collation behind
  \<^verbatim>\<open>String.prototype.localeCompare\<close>.
\<close>

record engine =
  parseFallback :: "string \<Rightarrow> int option"
  localTZA :: "int \<Rightarrow> int"
  localeCompare :: "string \<Rightarrow> string \<Rightarrow> int"

text \<open>\<^verbatim>\<open>Date.parse(v)\<close> converts its argument to text first.\<close>

definition Date_parse :: "engine \<Rightarrow> jsval \<Rightarrow> int option" where
  "Date_parse eng v =
     (case parseDateOnly (toString v) of
        Some t \<Rightarrow> Some t
      | None \<Rightarrow> (case parseFallback eng (toString v) of None \<Rightarrow> None | Some t \<Rightarrow> TimeClip t))"

text \<open>\<^verbatim>\<open>new Date(v)\<close> parses a string and converts every other value to a number.\<close>

fun new_Date :: "engine \<Rightarrow> jsval \<Rightarrow> int option" where
  "new_Date eng (JStr s) = Date_parse eng (JStr s)"
| "new_Date eng JUndefined = None"
| "new_Date eng JNull = TimeClip 0"
| "new_Date eng (JBool b) = TimeClip (if b then 1 else 0)"
| "new_Date eng (JNum n) = TimeClip (sint n)"

text \<open>\<^verbatim>\<open>getFullYear()\<close> is the year of the local time, \<^verbatim>\<open>NaN\<close> for an invalid date.\<close>

definition getFullYear :: "engine \<Rightarrow> int option \<Rightarrow> int option" where
  "getFullYear eng tv = (case tv of None \<Rightarrow> None | Some t \<Rightarrow> Some (YearFromTime (t + localTZA eng t)))"

text \<open>\<^verbatim>\<open>function getYear(dateString) { return new Date(dateString).getFullYear(); }\<close>\<close>

definition getYear :: "engine \<Rightarrow> jsval \<Rightarrow> int option" where
  "getYear eng dateString = getFullYear eng (new_Date eng dateString)"

text \<open>
  \<open>getYear\<close> has no error result, because no step of \<^verbatim>\<open>new Date(x).getFullYear()\<close>
  throws on a value of the data context.  The language has two more kinds of primitive
  value, symbols and big integers, which no data file can hold; on them the conversion to a
  number inside \<^verbatim>\<open>new Date\<close> throws a \<^verbatim>\<open>TypeError\<close>.  The call is modelled a second time
  on all primitive values, with the error as a result, so that "raises nothing" is a
  statement about \<open>Data\<close> values rather than a property of a type.
\<close>

datatype js_error = TypeError

datatype js_primitive = Data jsval | JSymbol string | JBigInt int

fun Date_construct :: "engine \<Rightarrow> js_primitive \<Rightarrow> js_error + int option" where
  "Date_construct eng (Data (JStr s)) = Inr (Date_parse eng (JStr s))"
| "Date_construct eng (Data JUndefined) = Inr None"
| "Date_construct eng (Data JNull) = Inr (TimeClip 0)"
| "Date_construct eng (Data (JBool b)) = Inr (TimeClip (if b then 1 else 0))"
| "Date_construct eng (Data (JNum n)) = Inr (TimeClip (sint n))"
| "Date_construct eng (JSymbol description) = Inl TypeError"
| "Date_construct eng (JBigInt n) = Inl TypeError"

definition getYear_call :: "engine \<Rightarrow> js_primitive \<Rightarrow> js_error + int option" where
  "getYear_call eng dateString =
     (case Date_construct eng dateString of
        Inl e \<Rightarrow> Inl e
      | Inr tv \<Rightarrow> Inr (getFullYear eng tv))"

subsection \<open>Sorting\<close>

text \<open>
  \<^verbatim>\<open>Array.prototype.sort(comparefn)\<close> is a function of the engine.  ECMA-262 requires it to
  return a permutation, to be stable and, for a consistent comparator, sorted; for such a
  comparator that fixes the result, whatever the algorithm.  The model computes this result
  with the stable insertion sort: an element moves behind its right neighbour only when the
  comparator says it must come later (a positive result).  Every engine agrees with the
  model on the arrays on which the comparator is consistent (lemma \<open>sortByDate_unique\<close>
  below, for the dates).

  For a comparator that is not consistent the standard leaves the order to the engine, and
  the model is then one possible engine, not the one of Node: the comparator of
  \<^verbatim>\<open>sortByDate\<close> is not consistent on an array that mixes dates that parse with dates that
  do not, and V8, which looks for a run and then inserts by binary search, returns such an
  array in another order than the insertion sort does.  Of such an array the properties
  below use nothing but that the result is a permutation.
\<close>

fun sort_insert :: "('a \<Rightarrow> 'a \<Rightarrow> int) \<Rightarrow> 'a \<Rightarrow> 'a list \<Rightarrow> 'a list" where
  "sort_insert cmp x [] = [x]"
| "sort_insert cmp x (y # ys) = (if 0 < cmp x y then y # sort_insert cmp x ys else x # y # ys)"

fun Array_sort :: "('a \<Rightarrow> 'a \<Rightarrow> int) \<Rightarrow> 'a list \<Rightarrow> 'a list" where
  "Array_sort cmp [] = []"
| "Array_sort cmp (x # xs) = sort_insert cmp x (Array_sort cmp xs)"

text \<open>Comparison of numbers: false as soon as one side is \<^verbatim>\<open>NaN\<close>.\<close>

fun num_less :: "int option \<Rightarrow> int option \<Rightarrow> bool" where
  "num_less (Some a) (Some b) = (a < b)"
| "num_less _ _ = False"

text \<open>The comparator of \<^verbatim>\<open>sortByDate\<close>; \<open>key\<close> selects the date field of an entry.\<close>

definition dateCompare :: "engine \<Rightarrow> ('a \<Rightarrow> jsval) \<Rightarrow> 'a \<Rightarrow> 'a \<Rightarrow> int" where
  "dateCompare eng key a b =
     (if num_less (Date_parse eng (key b)) (Date_parse eng (key a)) then - 1
      else if num_less (Date_parse eng (key a)) (Date_parse eng (key b)) then 1
      else 0)"

text \<open>\<^verbatim>\<open>array.slice(0)\<close> copies the array, so the sort works on the copy and the argument is
  left as it was: the function is pure.\<close>

definition sortByDate :: "engine \<Rightarrow> 'a list \<Rightarrow> ('a \<Rightarrow> jsval) \<Rightarrow> 'a list" where
  "sortByDate eng array key = Array_sort (dateCompare eng key) array"

text \<open>\<^verbatim>\<open>array.sort()\<close> without a comparator orders the elements by their texts, code unit by
  code unit.\<close>

definition default_compare :: "string \<Rightarrow> string \<Rightarrow> int" where
  "default_compare x y = (if x < y then - 1 else if y < x then 1 else 0)"

subsection \<open>The data context\<close>

text \<open>
  The records follow the property names that the source reads.  A field is a string where
  the source calls a string method on it (\<^verbatim>\<open>replace\<close>, \<^verbatim>\<open>localeCompare\<close>), a list where
  it maps over it, and any value otherwise.  Names that are Isabelle keywords
  (\<^verbatim>\<open>for\<close>, \<^verbatim>\<open>from\<close>, \<^verbatim>\<open>end\<close>, \<^verbatim>\<open>where\<close>) carry the entity's name as a prefix, and so do the
  others.  A paper is an Eleventy collection item: \<open>paper_content\<close> is
  \<^verbatim>\<open>paper.template.frontMatter.content\<close>, \<open>paper_url\<close> is \<^verbatim>\<open>paper.url\<close>, the other fields are
  in \<^verbatim>\<open>paper.data\<close>.
\<close>

record degree =
  degree_title :: jsval
  degree_start :: jsval
  degree_end :: jsval

record edu =
  edu_school :: jsval
  edu_degrees :: "degree list"

record author =
  author_name :: jsval

record paper =
  paper_url :: jsval
  paper_title :: jsval
  paper_authors :: "author list"
  paper_journal :: jsval
  paper_published :: jsval
  paper_accepted :: jsval
  paper_rnr :: jsval
  paper_year :: jsval
  paper_content :: jsval

record presentation =
  pres_where :: jsval
  pres_date :: jsval

record award =
  award_title :: jsval
  award_for :: jsval
  award_from :: jsval
  award_date :: jsval
  award_start :: jsval
  award_end :: jsval

record project =
  project_title :: string
  project_url :: jsval
  project_github :: jsval

record reference =
  reference_url :: jsval
  reference_title :: jsval
  reference_description :: jsval
  reference_email :: string

record site =
  site_title :: jsval
  site_bio :: jsval
  site_email :: jsval
  site_url :: string
  site_linkedin :: jsval
  site_github :: jsval

record cv =
  cv_education :: "edu list"
  cv_presentations :: "presentation list"
  cv_refereeing :: "string list"
  cv_awards :: "award list"
  cv_researchexp :: "award list"
  cv_references :: "reference list"

record data =
  data_site :: site
  data_cv :: cv
  collections_papers :: "paper list"
  projects_academic :: "project list"
  projects_professional :: "project list"
  projects_personal :: "project list"

subsection \<open>The filters \<^verbatim>\<open>where\<close> and \<^verbatim>\<open>where_not\<close>\<close>

text \<open>
  \<^verbatim>\<open>this.where\<close> and \<^verbatim>\<open>this.where_not\<close> are filters that the site registers with Eleventy
  outside this file; the three definitions below stand for them.  The key, a property name
  in the source, is the selector of that property here.
\<close>

text \<open>Modelled from the spec: \<^verbatim>\<open>this.where(array, key)\<close>, which is not in this file, keeps the
  elements that the flag selects ("accepted vs. not-accepted partition of the same
  collection", "papers, filtered by acceptance flag").\<close>

definition where_filter :: "'a list \<Rightarrow> ('a \<Rightarrow> jsval) \<Rightarrow> 'a list" where
  "where_filter array key = filter (\<lambda>item. truthy (key item)) array"

text \<open>Modelled from the spec: \<^verbatim>\<open>this.where_not(array, key)\<close>, which is not in this file, keeps
  the elements that the flag does not select, the other half of the partition.\<close>

definition where_not :: "'a list \<Rightarrow> ('a \<Rightarrow> jsval) \<Rightarrow> 'a list" where
  "where_not array key = filter (\<lambda>item. \<not> truthy (key item)) array"

text \<open>Modelled from the spec: \<^verbatim>\<open>this.where_not(array, key, value)\<close>, which is not in this file,
  keeps the elements whose property differs from the value ("all authors except the profile
  owner").\<close>

definition where_not_value :: "'a list \<Rightarrow> ('a \<Rightarrow> jsval) \<Rightarrow> jsval \<Rightarrow> 'a list" where
  "where_not_value array key v = filter (\<lambda>item. key item \<noteq> v) array"

subsection \<open>Section functions\<close>

text \<open>Every section function maps its entries to LaTeX snippets and joins them with an empty
  line.  The arrow functions passed to \<^verbatim>\<open>map\<close> are named after the entry they format.\<close>

abbreviation blank_line :: string where
  "blank_line \<equiv> [nl, nl]"

abbreviation indent10 :: string where
  "indent10 \<equiv> ''          ''"

definition is_word :: "char \<Rightarrow> bool" where
  "is_word c = ((CHR ''a'' \<le> c \<and> c \<le> CHR ''z'') \<or> (CHR ''A'' \<le> c \<and> c \<le> CHR ''Z'')
     \<or> (CHR ''0'' \<le> c \<and> c \<le> CHR ''9'') \<or> c = CHR ''_'')"

text \<open>\<^verbatim>\<open>url.replace(/(^\w+:|^)\/\//, "")\<close>: drop a leading scheme and the two slashes.\<close>

definition strip_scheme :: "string \<Rightarrow> string" where
  "strip_scheme url =
     (let rest = dropWhile is_word url
      in if takeWhile is_word url \<noteq> [] \<and> take 3 rest = ''://'' then drop 3 rest
         else if take 2 url = ''//'' then drop 2 url
         else url)"

definition texAddressLine :: "site \<Rightarrow> string" where
  "texAddressLine s =
     bs # ''href{mailto:'' @ toString (site_email s) @ ''}{'' @ toString (site_email s) @ ''}''
     @ nl # ''    {'' @ bs # ''hspace{0.1em}'' @ bs # ''textbullet'' @ bs # ''hspace{0.1em}}''
     @ nl # ''    '' @ bs # ''href{'' @ site_url s @ ''}{'' @ strip_scheme (site_url s) @ ''} ''
     @ nl # ''    {'' @ bs # ''hspace{0.1em}'' @ bs # ''textbullet'' @ bs # ''hspace{0.1em}}''
     @ nl # ''    '' @ bs # ''href{https://linkedin.com/in/'' @ toString (site_linkedin s)
     @ ''}{'' @ bs # ''faLinkedin/'' @ toString (site_linkedin s) @ ''} ''
     @ nl # ''    {'' @ bs # ''hspace{0.1em}'' @ bs # ''textbullet'' @ bs # ''hspace{0.1em}}''
     @ nl # ''    '' @ bs # ''href{https://github.com/'' @ toString (site_github s)
     @ ''}{'' @ bs # ''faGithub/'' @ toString (site_github s) @ ''}''"

definition texDegree :: "engine \<Rightarrow> degree \<Rightarrow> string" where
  "texDegree eng d =
     bs # ''cvsubsubsection{'' @ toString (degree_title d) @ ''} '' @ bs # ''dateright{''
     @ numToString (getYear eng (degree_start d)) @ ''--''
     @ numToString (getYear eng (degree_end d)) @ ''}''"

definition texEducation :: "engine \<Rightarrow> edu list \<Rightarrow> string" where
  "texEducation eng education =
     join blank_line
       (map (\<lambda>e. bs # ''cvsubsection{'' @ toString (edu_school e) @ ''}'' @ blank_line
                  @ join blank_line (map (texDegree eng) (edu_degrees e)))
          education)"

definition withString :: "site \<Rightarrow> paper \<Rightarrow> string" where
  "withString s p =
     (if length (paper_authors p) > 1
      then '' (with ''
        @ joinVals '', '' (map author_name (where_not_value (paper_authors p) author_name (site_title s)))
        @ '')''
      else [])"

definition journalString :: "paper \<Rightarrow> string" where
  "journalString p =
     (if truthy (paper_journal p) \<and> truthy (paper_published p)
      then blank_line @ bs # ''cvsubsubsection{'' @ toString (paper_journal p) @ '' ''
        @ toString (paper_year p) @ ''}''
      else if truthy (paper_journal p) \<and> truthy (paper_accepted p)
      then blank_line @ bs # ''cvsubsubsection{Accepted at '' @ toString (paper_journal p) @ ''}''
      else if truthy (paper_journal p) \<and> truthy (paper_rnr p)
      then blank_line @ bs # ''cvsubsubsection{R'' @ bs # ''&R at '' @ toString (paper_journal p) @ ''}''
      else [])"

definition texPaper :: "site \<Rightarrow> paper \<Rightarrow> string" where
  "texPaper s p =
     bs # ''cvsubsection{'' @ bs # ''href{'' @ site_url s @ toString (paper_url p) @ ''}{''
     @ [bq, bq] @ toString (paper_title p) @ [sq, sq] @ ''}}'' @ withString s p @ journalString p
     @ blank_line @ bs # ''begin{markdown}'' @ toString (paper_content p) @ bs # ''end{markdown}''
     @ nl # indent10"

definition texPapers :: "site \<Rightarrow> paper list \<Rightarrow> string" where
  "texPapers s papers = join blank_line (map (texPaper s) papers)"

definition texPresentation :: "engine \<Rightarrow> presentation \<Rightarrow> string" where
  "texPresentation eng pres =
     toString (pres_where pres) @ '' '' @ bs # ''dateright{''
     @ numToString (getYear eng (pres_date pres)) @ ''}''"

definition texPresentations :: "engine \<Rightarrow> presentation list \<Rightarrow> string" where
  "texPresentations eng presentations =
     (let sortedPresentations = sortByDate eng presentations pres_date
      in join blank_line (map (texPresentation eng) sortedPresentations))"

definition awardDateString :: "engine \<Rightarrow> award \<Rightarrow> string" where
  "awardDateString eng a =
     (if truthy (award_date a)
      then '' '' @ bs # ''dateright{'' @ numToString (getYear eng (award_date a)) @ ''}''
      else if truthy (award_start a) \<and> truthy (award_end a)
      then '' '' @ bs # ''dateright{'' @ numToString (getYear eng (award_start a)) @ ''--''
        @ numToString (getYear eng (award_end a)) @ ''}''
      else [])"

definition texAward :: "engine \<Rightarrow> award \<Rightarrow> string" where
  "texAward eng a =
     joinVals '', '' (filter truthy [award_title a, award_for a, award_from a])
     @ awardDateString eng a"

definition texAwards :: "engine \<Rightarrow> award list \<Rightarrow> string" where
  "texAwards eng awards =
     (let sortedAwards = sortByDate eng awards award_date
      in join blank_line (map (texAward eng) sortedAwards))"

definition texProject :: "project \<Rightarrow> string" where
  "texProject p =
     bs # ''cvsubsubsection{'' @ bs # ''href{'' @ toString (project_url p) @ ''}{''
     @ project_title p @ ''}}''
     @ (if truthy (project_github p)
        then bs # ''dateright{'' @ bs # ''href{'' @ toString (project_github p) @ ''}{''
          @ bs # ''faGithub'' @ bs # '' Source}}''
        else [])"

definition texList :: "project list \<Rightarrow> string" where
  "texList projects = join blank_line (map texProject projects)"

text \<open>\<^verbatim>\<open>s.replace(pattern, replacement)\<close> with a string pattern replaces the first occurrence
  of the pattern, if there is one.\<close>

fun replace_first :: "string \<Rightarrow> string \<Rightarrow> string \<Rightarrow> string" where
  "replace_first pat rep [] = (if pat = [] then rep else [])"
| "replace_first pat rep (c # cs) =
     (if take (length pat) (c # cs) = pat then rep @ drop (length pat) (c # cs)
      else c # replace_first pat rep cs)"

definition texReference :: "reference \<Rightarrow> string" where
  "texReference r =
     bs # ''cvsubsection{'' @ bs # ''href{'' @ toString (reference_url r) @ ''}{''
     @ toString (reference_title r) @ ''}}''
     @ nl # indent10 @ nl # indent10
     @ bs # ''cvsubsubsection{'' @ toString (reference_description r) @ ''}''
     @ nl # indent10 @ nl # indent10
     @ bs # ''href{mailto:'' @ replace_first ''..'' ''@'' (reference_email r) @ ''}{''
     @ replace_first ''..'' ''@'' (reference_email r) @ ''}''"

definition texReferences :: "reference list \<Rightarrow> string" where
  "texReferences references = join blank_line (map texReference references)"

subsection \<open>The document body\<close>

text \<open>
  The two software lists are sorted by title with \<^verbatim>\<open>localeCompare\<close> before they are
  passed to \<^verbatim>\<open>texList\<close>.  The papers are split by the \<^verbatim>\<open>accepted\<close> flag.
\<close>

definition titleCompare :: "engine \<Rightarrow> project \<Rightarrow> project \<Rightarrow> int" where
  "titleCompare eng a b = localeCompare eng (project_title a) (project_title b)"

definition academic_list :: "engine \<Rightarrow> data \<Rightarrow> project list" where
  "academic_list eng d = Array_sort (titleCompare eng) (projects_academic d)"

definition other_list :: "engine \<Rightarrow> data \<Rightarrow> project list" where
  "other_list eng d = Array_sort (titleCompare eng) (projects_professional d @ projects_personal d)"

definition publications :: "data \<Rightarrow> paper list" where
  "publications d = where_filter (collections_papers d) paper_accepted"

definition working_papers :: "data \<Rightarrow> paper list" where
  "working_papers d = where_not (collections_papers d) paper_accepted"

text \<open>
  \<^verbatim>\<open>texBody\<close> is one template literal; the list below has one element for each of its lines.
  Two of its expressions call \<^verbatim>\<open>sort\<close> on an array of the context itself,
  \<^verbatim>\<open>data.cv.refereeing.sort()\<close> and \<^verbatim>\<open>data["projects-academic"].sort(...)\<close>; that method
  sorts the array in place, so the context after the evaluation is returned with the text.
  (\<^verbatim>\<open>concat\<close> builds a new array, so the other two project lists stay as they are, and
  \<^verbatim>\<open>sortByDate\<close> sorts a copy.)
\<close>

definition texBody :: "engine \<Rightarrow> data \<Rightarrow> string \<times> data" where
  "texBody eng d =
     (join [nl]
       [''%%% Make a header for CV with personal data'',
        bs # ''begin{center}'',
        ''  '' @ bs # ''headernamestyle{'',
        ''    '' @ toString (site_title (data_site d)),
        ''  }'',
        ''  '' @ [bs, bs],
        ''  '' @ bs # ''vspace{0.6mm}'',
        ''  '' @ bs # ''headerpositionstyle{'',
        ''    '' @ toString (site_bio (data_site d)),
        ''  }'',
        ''  '' @ [bs, bs],
        ''  '' @ bs # ''vspace{0.4mm}'',
        ''  '' @ bs # ''headeraddressstyle{'',
        ''    '' @ texAddressLine (data_site d),
        ''  }'',
        ''  '' @ [bs, bs],
        ''  '' @ bs # ''vspace{-1mm}'',
        bs # ''end{center}'',
        [],
        ''%%% Education'',
        bs # ''cvsection{Education}'',
        [],
        texEducation eng (cv_education (data_cv d)),
        [],
        ''%%% Publications'',
        bs # ''cvsection{Publications}'',
        [],
        texPapers (data_site d) (publications d),
        [],
        ''%%% Working papers'',
        bs # ''cvsection{Working Papers}'',
        [],
        texPapers (data_site d) (working_papers d),
        [],
        ''%%% Presentations'',
        bs # ''cvsection{Presentations}'' @ bs # ''vspace{1.618ex}'',
        [],
        texPresentations eng (cv_presentations (data_cv d)),
        [],
        ''%%% Refereeing'',
        bs # ''cvsection{Refereeing}'' @ bs # ''vspace{1.618ex}'',
        [],
        join '', '' (Array_sort default_compare (cv_refereeing (data_cv d))),
        [],
        ''%%% Fellowships '' @ bs # ''& Awards'',
        bs # ''cvsection{Fellowships '' @ bs # ''& Awards}'' @ bs # ''vspace{1.618ex}'',
        [],
        texAwards eng (cv_awards (data_cv d)),
        [],
        ''%%% RA Experience'',
        bs # ''cvsection{Research Experience}'' @ bs # ''vspace{1.618ex}'',
        [],
        texAwards eng (cv_researchexp (data_cv d)),
        [],
        ''%%% Software'',
        bs # ''cvsection{Software}'',
        [],
        bs # ''cvsubsection{Research Software Packages}'',
        [],
        texList (academic_list eng d),
        [],
        bs # ''cvsubsection{Other Software '' @ bs # ''& Projects}'',
        [],
        texList (other_list eng d),
        [],
        ''%%% References'',
        bs # ''cvsection{References}'',
        texReferences (cv_references (data_cv d)),
        []],
      d\<lparr>data_cv := (data_cv d)\<lparr>cv_refereeing := Array_sort default_compare (cv_refereeing (data_cv d))\<rparr>,
        projects_academic := academic_list eng d\<rparr>)"

subsection \<open>Compiling with LuaLaTeX\<close>

text \<open>
  The calls that \<^verbatim>\<open>render\<close> and its callbacks make on the file system, the child process
  and the console, in the order in which they are made.
\<close>

datatype io =
    MkdirSync string
  | Spawn string "string list" string
  | StdinWrite string
  | StdinEnd
  | ConsoleLog string
  | FsRename string string

record render_result =
  return_value :: jsval
  effects :: "io list"
  data_after :: data

text \<open>
  \<^verbatim>\<open>render(data)\<close>, given whether \<^verbatim>\<open>./tmp\<close> exists and the texts of the two files it reads
  (\<^verbatim>\<open>_preamble.tex\<close> and \<^verbatim>\<open>_postamble.tex\<close> beside the source).  The path of the compiler is
  the one the source resolves against the working directory.  The method ends with a bare
  \<^verbatim>\<open>return\<close>, so the promise it returns resolves to \<^verbatim>\<open>undefined\<close>; the listener for the
  child's \<^verbatim>\<open>close\<close> event runs later.
\<close>

definition render :: "engine \<Rightarrow> bool \<Rightarrow> string \<Rightarrow> string \<Rightarrow> data \<Rightarrow> render_result" where
  "render eng tmp_exists texPreamble texPostamble d =
     (case texBody eng d of (body, d') \<Rightarrow>
        \<lparr>return_value = JUndefined,
         effects =
           (if \<not> tmp_exists then [MkdirSync ''./tmp''] else [])
           @ [Spawn ''./tmp/vtex/bin/x86_64-linux/lualatex'' [''--jobname=cv''] ''./tmp'',
              StdinWrite (texPreamble @ [nl] @ body @ [nl] @ texPostamble),
              StdinEnd],
         data_after = d'\<rparr>)"

text \<open>
  \<open>render\<close> above is the run in which the child process starts.  The compiler is a file
  below \<^verbatim>\<open>./tmp\<close>; when it is not there, and so whenever \<^verbatim>\<open>./tmp\<close> had to be created,
  \<^verbatim>\<open>spawn\<close> still returns, but the child emits an \<^verbatim>\<open>error\<close> event for which the source
  registers no listener.  The event is delivered while \<^verbatim>\<open>render\<close> waits for the preamble, and
  Node ends the process with it: nothing is written to the child and \<^verbatim>\<open>render\<close> returns
  nothing.  The context has been changed by then, because the body is built first.
\<close>

datatype render_outcome =
    Returned render_result
  | Died "io list" data

definition render_process :: "engine \<Rightarrow> bool \<Rightarrow> bool \<Rightarrow> string \<Rightarrow> string \<Rightarrow> data \<Rightarrow> render_outcome" where
  "render_process eng tmp_exists compiler_exists texPreamble texPostamble d =
     (if tmp_exists \<and> compiler_exists
      then Returned (render eng tmp_exists texPreamble texPostamble d)
      else (case texBody eng d of (body, d') \<Rightarrow>
              Died ((if \<not> tmp_exists then [MkdirSync ''./tmp''] else [])
                    @ [Spawn ''./tmp/vtex/bin/x86_64-linux/lualatex'' [''--jobname=cv''] ''./tmp''])
                   d'))"

text \<open>The exit code that Node passes to the listener is a number, or \<^verbatim>\<open>null\<close> (here \<open>None\<close>) when
  a signal ended the child.\<close>

definition codeToString :: "int option \<Rightarrow> string" where
  "codeToString code = (case code of None \<Rightarrow> ''null'' | Some n \<Rightarrow> intToString n)"

text \<open>The callback of \<^verbatim>\<open>fs.rename\<close>: it throws the error it is given, and logs otherwise.\<close>

definition rename_callback :: "int option \<Rightarrow> bool \<Rightarrow> io list \<times> bool" where
  "rename_callback code err =
     (if err then ([], True)
      else ([ConsoleLog (''CV moved to dist folder (LuaLaTeX exited with '' @ codeToString code @ '').'')],
            False))"

text \<open>
  The listener \<^verbatim>\<open>lualatexProcess.on("close", (code) => ...)\<close> together with the callback it
  may start: the calls made, and whether an exception was thrown.  \<open>rename_err\<close> tells
  whether the file system reports an error for the rename.
\<close>

definition on_close :: "int option \<Rightarrow> bool \<Rightarrow> io list \<times> bool" where
  "on_close code rename_err =
     (if code \<noteq> Some 0
      then ([ConsoleLog (''LuaLaTeX process exited with code '' @ codeToString code @ ''.'')], False)
      else (case rename_callback code rename_err of
              (calls, thrown) \<Rightarrow> (FsRename ''./tmp/cv.pdf'' ''./dist/cv.pdf'' # calls, thrown)))"

fun is_rename :: "io \<Rightarrow> bool" where
  "is_rename (FsRename _ _) = True"
| "is_rename _ = False"

fun is_log :: "io \<Rightarrow> bool" where
  "is_log (ConsoleLog _) = True"
| "is_log _ = False"

subsection \<open>Notions used in the properties\<close>

text \<open>A list is in reverse chronological order when no entry has an earlier date than an
  entry behind it; \<open>num_less\<close> is the comparison of the source, false on \<^verbatim>\<open>NaN\<close>.\<close>

definition ordered_by_date :: "engine \<Rightarrow> ('a \<Rightarrow> jsval) \<Rightarrow> 'a list \<Rightarrow> bool" where
  "ordered_by_date eng key xs =
     sorted_wrt (\<lambda>a b. \<not> num_less (Date_parse eng (key a)) (Date_parse eng (key b))) xs"

definition all_parse :: "engine \<Rightarrow> ('a \<Rightarrow> jsval) \<Rightarrow> 'a list \<Rightarrow> bool" where
  "all_parse eng key xs = list_all (\<lambda>e. Date_parse eng (key e) \<noteq> None) xs"

definition none_parse :: "engine \<Rightarrow> ('a \<Rightarrow> jsval) \<Rightarrow> 'a list \<Rightarrow> bool" where
  "none_parse eng key xs = list_all (\<lambda>e. Date_parse eng (key e) = None) xs"

text \<open>Texts separated by a comma and a space, written without the \<^verbatim>\<open>join\<close> of the source:
  the first text, and every further text behind \<^verbatim>\<open>, \<close>.\<close>

fun comma_separated :: "string list \<Rightarrow> string" where
  "comma_separated [] = []"
| "comma_separated (n # ns) = n @ concat (map (\<lambda>m. '', '' @ m) ns)"

text \<open>The pattern occurs somewhere in the text.\<close>

fun occurs :: "string \<Rightarrow> string \<Rightarrow> bool" where
  "occurs pat [] = (pat = [])"
| "occurs pat (c # cs) = (take (length pat) (c # cs) = pat \<or> occurs pat cs)"

text \<open>Case-insensitive lexical comparison: the texts are compared character by character
  after upper-case letters have been replaced by lower-case ones.\<close>

definition is_upper :: "char \<Rightarrow> bool" where
  "is_upper c = (CHR ''A'' \<le> c \<and> c \<le> CHR ''Z'')"

definition to_lower :: "char \<Rightarrow> char" where
  "to_lower c = (if is_upper c then char_of (of_char c + (32 :: nat)) else c)"

definition ci_le :: "string \<Rightarrow> string \<Rightarrow> bool" where
  "ci_le a b = (map to_lower a \<le> map to_lower b)"

definition ci_sorted :: "string list \<Rightarrow> bool" where
  "ci_sorted titles = successively ci_le titles"

text \<open>What ECMA-262 requires of \<^verbatim>\<open>localeCompare\<close>, as far as sorting needs it: the two
  arguments are comparable in one direction at least, and "not after" is transitive.\<close>

definition consistent_comparator :: "('a \<Rightarrow> 'a \<Rightarrow> int) \<Rightarrow> bool" where
  "consistent_comparator cmp =
     ((\<forall>a b. 0 < cmp a b \<longrightarrow> cmp b a \<le> 0)
      \<and> (\<forall>a b c. cmp a b \<le> 0 \<longrightarrow> cmp b c \<le> 0 \<longrightarrow> cmp a c \<le> 0))"

subsection \<open>Two engines and some entries\<close>

text \<open>
  A collation of the kind that engines built on the Unicode collation algorithm supply,
  restricted to ASCII: punctuation and symbols come before digits, digits before letters;
  letters are compared without regard to case first and, when that leaves a tie, lower case
  comes before upper case.
\<close>

definition primary_weight :: "char \<Rightarrow> nat" where
  "primary_weight c =
     (if is_upper c \<or> (CHR ''a'' \<le> c \<and> c \<le> CHR ''z'') then 512 + of_char (to_lower c)
      else if is_digit c then 256 + of_char c
      else of_char c)"

definition collation_key :: "string \<Rightarrow> nat list \<times> nat list" where
  "collation_key s = (map primary_weight s, map (\<lambda>c. if is_upper c then 1 else 0) s)"

definition collate :: "string \<Rightarrow> string \<Rightarrow> int" where
  "collate a b =
     (if collation_key a < collation_key b then - 1
      else if collation_key b < collation_key a then 1
      else 0)"

text \<open>An engine that reads no date format beyond the standard one, on a host whose clock is
  UTC, and the same engine on a host five hours behind UTC (New York in winter).\<close>

definition engine_utc :: engine where
  "engine_utc = \<lparr>parseFallback = (\<lambda>s. None), localTZA = (\<lambda>t. 0), localeCompare = collate\<rparr>"

definition engine_utc_minus5 :: engine where
  "engine_utc_minus5 =
     \<lparr>parseFallback = (\<lambda>s. None), localTZA = (\<lambda>t. - 18000000), localeCompare = collate\<rparr>"

definition award_on :: "string \<Rightarrow> string \<Rightarrow> award" where
  "award_on title date =
     \<lparr>award_title = JStr title, award_for = JUndefined, award_from = JUndefined,
      award_date = JStr date, award_start = JUndefined, award_end = JUndefined\<rparr>"

definition award_from_to :: "string \<Rightarrow> string \<Rightarrow> string \<Rightarrow> award" where
  "award_from_to title start end' =
     \<lparr>award_title = JStr title, award_for = JUndefined, award_from = JUndefined,
      award_date = JUndefined, award_start = JStr start, award_end = JStr end'\<rparr>"

definition project_titled :: "string \<Rightarrow> project" where
  "project_titled title = \<lparr>project_title = title, project_url = JUndefined, project_github = JUndefined\<rparr>"

definition empty_site :: site where
  "empty_site =
     \<lparr>site_title = JStr ''Matt Thomas'', site_bio = JStr [], site_email = JStr [], site_url = [],
      site_linkedin = JStr [], site_github = JStr []\<rparr>"

definition empty_data :: data where
  "empty_data =
     \<lparr>data_site = empty_site,
      data_cv = \<lparr>cv_education = [], cv_presentations = [], cv_refereeing = [], cv_awards = [],
                 cv_researchexp = [], cv_references = []\<rparr>,
      collections_papers = [], projects_academic = [], projects_professional = [],
      projects_personal = []\<rparr>"

definition degree_from_to :: "jsval \<Rightarrow> jsval \<Rightarrow> degree" where
  "degree_from_to start end' = \<lparr>degree_title = JStr ''PhD'', degree_start = start, degree_end = end'\<rparr>"

definition paper_by :: "string list \<Rightarrow> paper" where
  "paper_by names =
     \<lparr>paper_url = JStr ''/papers/one/'', paper_title = JStr ''One'',
      paper_authors = map (\<lambda>n. \<lparr>author_name = JStr n\<rparr>) names,
      paper_journal = JUndefined, paper_published = JUndefined, paper_accepted = JUndefined,
      paper_rnr = JUndefined, paper_year = JUndefined, paper_content = JStr []\<rparr>"

section \<open>Properties\<close>

subsection \<open>The year of a time value\<close>

lemma DayFromYear_step: "DayFromYear z < DayFromYear (z + 1)"
proof -
  define p q r where "p = (z - 1969) div 4" and "q = (z - 1901) div 100"
    and "r = (z - 1601) div 400"
  define p' q' r' where "p' = (z + 1 - 1969) div 4" and "q' = (z + 1 - 1901) div 100"
    and "r' = (z + 1 - 1601) div 400"
  have a: "p \<le> p'"
    unfolding p_def p'_def by (rule zdiv_mono1) simp_all
  have "q' \<le> (z - 1901 + 100) div 100"
    unfolding q'_def by (rule zdiv_mono1) simp_all
  then have b: "q' \<le> q + 1"
    unfolding q_def by simp
  have c: "r \<le> r'"
    unfolding r_def r'_def by (rule zdiv_mono1) simp_all
  have "365 * (z - 1970) + p - q + r < 365 * (z + 1 - 1970) + p' - q' + r'"
    using a b c by (simp add: algebra_simps)
  then show ?thesis
    unfolding DayFromYear_def p_def q_def r_def p'_def q'_def r'_def .
qed

lemma DayFromYear_mono: "a \<le> b \<Longrightarrow> DayFromYear a \<le> DayFromYear b"
proof (induction b rule: int_ge_induct)
  case base
  show ?case by simp
next
  case (step i)
  then show ?case using DayFromYear_step [of i] by simp
qed

lemma year_search_bounds:
  "DayFromYear (year_search d y) \<le> d \<and> d < DayFromYear (year_search d y + 1)"
proof (induction d y rule: year_search.induct)
  case (1 d y)
  show ?case
  proof (cases "d < DayFromYear y")
    case True
    then show ?thesis using "1.IH"(1) by (subst (1 2) year_search.simps) simp
  next
    case False
    show ?thesis
    proof (cases "DayFromYear (y + 1) \<le> d")
      case True
      then show ?thesis using False "1.IH"(2) by (subst (1 2) year_search.simps) simp
    next
      case False
      then show ?thesis using \<open>\<not> d < DayFromYear y\<close> by (subst (1 2) year_search.simps) simp
    qed
  qed
qed

text \<open>\<open>YearFromTime t\<close> is the largest year whose first day is not after \<open>t\<close>.\<close>

lemma YearFromTime_largest:
  "DayFromYear (YearFromTime t) \<le> Day t \<and> (\<forall>y. DayFromYear y \<le> Day t \<longrightarrow> y \<le> YearFromTime t)"
proof (intro conjI allI impI)
  show "DayFromYear (YearFromTime t) \<le> Day t"
    using year_search_bounds [of "Day t"] by (simp add: YearFromTime_def)
next
  fix y assume le: "DayFromYear y \<le> Day t"
  show "y \<le> YearFromTime t"
  proof (rule ccontr)
    assume "\<not> y \<le> YearFromTime t"
    then have "YearFromTime t + 1 \<le> y" by simp
    then have "DayFromYear (YearFromTime t + 1) \<le> DayFromYear y"
      by (rule DayFromYear_mono)
    moreover have "Day t < DayFromYear (YearFromTime t + 1)"
      using year_search_bounds [of "Day t"] by (simp add: YearFromTime_def)
    ultimately show False using le by simp
  qed
qed

lemma div_succ:
  fixes a k :: int
  assumes "1 < k"
  shows "(a + 1) div k = a div k + (if (a + 1) mod k = 0 then 1 else 0)"
proof -
  have r: "0 \<le> a mod k" "a mod k < k"
    using assms by simp_all
  have a: "a = k * (a div k) + a mod k"
    by simp
  show ?thesis
  proof (cases "a mod k = k - 1")
    case True
    have e: "a + 1 = k * (a div k + 1) + 0"
      using a True by (simp add: algebra_simps)
    have "(a + 1) div k = a div k + 1"
      by (rule int_div_pos_eq [OF e]) (use assms in simp_all)
    moreover have "(a + 1) mod k = 0"
      by (rule int_mod_pos_eq [OF e]) (use assms in simp_all)
    ultimately show ?thesis by simp
  next
    case False
    then have lt: "a mod k + 1 < k"
      using r by simp
    have e: "a + 1 = k * (a div k) + (a mod k + 1)"
      using a by simp
    have "(a + 1) div k = a div k"
      by (rule int_div_pos_eq [OF e]) (use lt r in simp_all)
    moreover have "(a + 1) mod k = a mod k + 1"
      by (rule int_mod_pos_eq [OF e]) (use lt r in simp_all)
    ultimately show ?thesis using r by simp
  qed
qed

text \<open>A year has 366 days when it is a leap year and 365 otherwise.\<close>

lemma mod_shift:
  fixes y k c :: int
  shows "(y - k * c + 1 - 1) mod k = y mod k"
proof -
  have "y - k * c + 1 - 1 = y + k * (- c)" by simp
  also have "\<dots> mod k = y mod k" by (rule mod_mult_self2)
  finally show ?thesis .
qed

lemma DaysInYear:
  "DayFromYear (y + 1) = DayFromYear y + (if InLeapYear y then 366 else 365)"
proof -
  have m4: "((y - 1969) + 1) mod 4 = y mod 4"
    using mod_shift [of y 4 492] by simp
  have m100: "((y - 1901) + 1) mod 100 = y mod 100"
    using mod_shift [of y 100 19] by simp
  have m400: "((y - 1601) + 1) mod 400 = y mod 400"
    using mod_shift [of y 400 4] by simp
  have d4: "(y + 1 - 1969) div 4 = (y - 1969) div 4 + (if y mod 4 = 0 then 1 else 0)"
  proof -
    have "(y + 1 - 1969) div 4 = ((y - 1969) + 1) div 4" by simp
    also have "\<dots> = (y - 1969) div 4 + (if ((y - 1969) + 1) mod 4 = 0 then 1 else 0)"
      by (rule div_succ) simp
    finally show ?thesis unfolding m4 .
  qed
  have d100: "(y + 1 - 1901) div 100 = (y - 1901) div 100 + (if y mod 100 = 0 then 1 else 0)"
  proof -
    have "(y + 1 - 1901) div 100 = ((y - 1901) + 1) div 100" by simp
    also have "\<dots> = (y - 1901) div 100 + (if ((y - 1901) + 1) mod 100 = 0 then 1 else 0)"
      by (rule div_succ) simp
    finally show ?thesis unfolding m100 .
  qed
  have d400: "(y + 1 - 1601) div 400 = (y - 1601) div 400 + (if y mod 400 = 0 then 1 else 0)"
  proof -
    have "(y + 1 - 1601) div 400 = ((y - 1601) + 1) div 400" by simp
    also have "\<dots> = (y - 1601) div 400 + (if ((y - 1601) + 1) mod 400 = 0 then 1 else 0)"
      by (rule div_succ) simp
    finally show ?thesis unfolding m400 .
  qed
  have "y mod 400 mod 100 = y mod 100"
    by (rule mod_mod_cancel) simp
  then have c1: "y mod 400 = 0 \<Longrightarrow> y mod 100 = 0"
    by (metis mod_0)
  have "y mod 100 mod 4 = y mod 4"
    by (rule mod_mod_cancel) simp
  then have c2: "y mod 100 = 0 \<Longrightarrow> y mod 4 = 0"
    by (metis mod_0)
  show ?thesis
  proof (cases "y mod 4 = 0")
    case False
    then have "y mod 100 \<noteq> 0" using c2 by auto
    then have "y mod 400 \<noteq> 0" using c1 by auto
    note nz = \<open>y mod 100 \<noteq> 0\<close> \<open>y mod 400 \<noteq> 0\<close>
    then have True by simp
    show ?thesis
      unfolding DayFromYear_def InLeapYear_def d4 d100 d400 using False nz by simp
  next
    case True
    show ?thesis
    proof (cases "y mod 100 = 0")
      case False
      then have "y mod 400 \<noteq> 0" using c1 by auto
      then show ?thesis
        unfolding DayFromYear_def InLeapYear_def d4 d100 d400 using True False by simp
    next
      case h: True
      show ?thesis
        unfolding DayFromYear_def InLeapYear_def d4 d100 d400 using True h by simp
    qed
  qed
qed


lemma YearFromTime_eq:
  assumes "DayFromYear y \<le> Day t" and "Day t < DayFromYear (y + 1)"
  shows "YearFromTime t = y"
proof -
  have "y \<le> YearFromTime t"
    using YearFromTime_largest [of t] assms(1) by blast
  moreover have "YearFromTime t \<le> y"
  proof (rule ccontr)
    assume "\<not> YearFromTime t \<le> y"
    then have "y + 1 \<le> YearFromTime t" by simp
    then have "DayFromYear (y + 1) \<le> DayFromYear (YearFromTime t)"
      by (rule DayFromYear_mono)
    then show False
      using YearFromTime_largest [of t] assms(2) by simp
  qed
  ultimately show ?thesis by simp
qed

lemma daysBeforeMonth_bound:
  assumes "1 \<le> m" "m \<le> 12" "1 \<le> d" "d \<le> DaysInMonth y m"
  shows "0 \<le> daysBeforeMonth y m + d - 1
    \<and> daysBeforeMonth y m + d - 1 < (if InLeapYear y then 366 else 365)"
proof -
  have "m = 1 \<or> m = 2 \<or> m = 3 \<or> m = 4 \<or> m = 5 \<or> m = 6
    \<or> m = 7 \<or> m = 8 \<or> m = 9 \<or> m = 10 \<or> m = 11 \<or> m = 12"
    using assms(1,2) by arith
  then show ?thesis
    using assms(3,4)
    by (elim disjE) (simp_all add: daysBeforeMonth_def DaysInMonth_def upto.simps split: if_splits)
qed

lemma makeDateUTC_year:
  assumes "makeDateUTC y m d = Some t"
  shows "YearFromTime t = y"
proof -
  have valid: "1 \<le> m" "m \<le> 12" "1 \<le> d" "d \<le> DaysInMonth y m"
    and t: "t = (DayFromYear y + daysBeforeMonth y m + d - 1) * msPerDay"
    using assms by (simp_all add: makeDateUTC_def split: if_splits)
  have day: "Day t = DayFromYear y + (daysBeforeMonth y m + d - 1)"
    by (simp add: t Day_def msPerDay_def)
  have b: "0 \<le> daysBeforeMonth y m + d - 1"
    "daysBeforeMonth y m + d - 1 < (if InLeapYear y then 366 else 365)"
    using daysBeforeMonth_bound [OF valid] by simp_all
  show ?thesis
  proof (rule YearFromTime_eq)
    show "DayFromYear y \<le> Day t"
      using b(1) day by simp
    show "Day t < DayFromYear (y + 1)"
      using b(2) day DaysInYear [of y] by simp
  qed
qed

text \<open>On a host whose clock is UTC, the year of a date written in one of the date-only
  forms is the number written in its first four places.\<close>

lemma parseDateOnly_year:
  assumes "parseDateOnly s = Some t"
  shows "YearFromTime t = decimal (take 4 s)"
  using assms by (auto simp: parseDateOnly_def makeDateUTC_year split: if_splits)

lemma getYear_utc:
  assumes "parseDateOnly s = Some t" and "localTZA eng t = 0"
  shows "getYear eng (JStr s) = Some (decimal (take 4 s))"
  using assms by (simp add: getYear_def getFullYear_def Date_parse_def parseDateOnly_year)


text \<open>West of UTC, midnight UTC of the first of January is still in the old year.\<close>

lemma new_year_west_of_utc:
  assumes "makeDateUTC y 1 1 = Some t" and "- msPerDay \<le> tz" and "tz < 0"
  shows "YearFromTime (t + tz) = y - 1"
proof -
  have t: "t = DayFromYear y * msPerDay"
    using assms(1) by (simp add: makeDateUTC_def daysBeforeMonth_def DaysInMonth_def split: if_splits)
  have e: "t + tz = msPerDay * (DayFromYear y - 1) + (msPerDay + tz)"
    by (simp add: t algebra_simps)
  have day: "Day (t + tz) = DayFromYear y - 1"
    unfolding Day_def
    by (rule int_div_pos_eq [OF e]) (use assms(2,3) in \<open>simp_all add: msPerDay_def\<close>)
  have y: "DayFromYear y = DayFromYear (y - 1) + (if InLeapYear (y - 1) then 366 else 365)"
    using DaysInYear [of "y - 1"] by simp
  show ?thesis
  proof (rule YearFromTime_eq)
    show "DayFromYear (y - 1) \<le> Day (t + tz)"
      using day y by simp
    show "Day (t + tz) < DayFromYear (y - 1 + 1)"
      using day by simp
  qed
qed

subsection \<open>The sort\<close>

lemma mset_sort_insert: "mset (sort_insert cmp x xs) = add_mset x (mset xs)"
  by (induction xs) simp_all

lemma mset_Array_sort: "mset (Array_sort cmp xs) = mset xs"
  by (induction xs) (simp_all add: mset_sort_insert)

lemma length_Array_sort: "length (Array_sort cmp xs) = length xs"
  using mset_Array_sort [of cmp xs] by (metis size_mset)

lemma set_sort_insert: "set (sort_insert cmp x xs) = insert x (set xs)"
  by (induction xs) auto

lemma set_Array_sort: "set (Array_sort cmp xs) = set xs"
  by (induction xs) (simp_all add: set_sort_insert)

lemma sorted_sort_insert:
  assumes anti: "\<And>y. y \<in> set xs \<Longrightarrow> 0 < cmp x y \<Longrightarrow> cmp y x \<le> 0"
    and trans: "\<And>y z. y \<in> set xs \<Longrightarrow> z \<in> set xs \<Longrightarrow> cmp x y \<le> 0 \<Longrightarrow> cmp y z \<le> 0 \<Longrightarrow> cmp x z \<le> 0"
    and sorted: "sorted_wrt (\<lambda>a b. cmp a b \<le> 0) xs"
  shows "sorted_wrt (\<lambda>a b. cmp a b \<le> 0) (sort_insert cmp x xs)"
  using assms
proof (induction xs)
  case Nil
  show ?case by simp
next
  case (Cons y ys)
  have sorted_ys: "sorted_wrt (\<lambda>a b. cmp a b \<le> 0) ys"
    using Cons.prems(3) by simp
  have y_le: "cmp y z \<le> 0" if "z \<in> set ys" for z
    using Cons.prems(3) that by simp
  show ?case
  proof (cases "0 < cmp x y")
    case True
    have "sorted_wrt (\<lambda>a b. cmp a b \<le> 0) (sort_insert cmp x ys)"
    proof (rule Cons.IH)
      show "cmp z x \<le> 0" if "z \<in> set ys" "0 < cmp x z" for z
        using Cons.prems(1) [of z] that by simp
      show "cmp x z \<le> 0" if "u \<in> set ys" "z \<in> set ys" "cmp x u \<le> 0" "cmp u z \<le> 0" for u z
        using Cons.prems(2) [of u z] that by simp
      show "sorted_wrt (\<lambda>a b. cmp a b \<le> 0) ys"
        by (rule sorted_ys)
    qed
    moreover have "cmp y x \<le> 0"
      using Cons.prems(1) [of y] True by simp
    moreover have "\<forall>z \<in> set ys. cmp y z \<le> 0"
      using y_le by blast
    ultimately show ?thesis
      using True by (simp add: set_sort_insert)
  next
    case False
    then have xy: "cmp x y \<le> 0" by simp
    have "cmp x z \<le> 0" if "z \<in> set ys" for z
      using Cons.prems(2) [of y z] that xy y_le [of z] by simp
    then have "\<forall>z \<in> set ys. cmp x z \<le> 0"
      by blast
    then show ?thesis
      using False xy Cons.prems(3) by simp
  qed
qed

lemma sorted_Array_sort:
  assumes anti: "\<And>x y. x \<in> set xs \<Longrightarrow> y \<in> set xs \<Longrightarrow> 0 < cmp x y \<Longrightarrow> cmp y x \<le> 0"
    and trans: "\<And>x y z. x \<in> set xs \<Longrightarrow> y \<in> set xs \<Longrightarrow> z \<in> set xs \<Longrightarrow>
       cmp x y \<le> 0 \<Longrightarrow> cmp y z \<le> 0 \<Longrightarrow> cmp x z \<le> 0"
  shows "sorted_wrt (\<lambda>a b. cmp a b \<le> 0) (Array_sort cmp xs)"
  using assms
proof (induction xs)
  case Nil
  show ?case by simp
next
  case (Cons x xs)
  have ih: "sorted_wrt (\<lambda>a b. cmp a b \<le> 0) (Array_sort cmp xs)"
  proof (rule Cons.IH)
    show "cmp b a \<le> 0" if "a \<in> set xs" "b \<in> set xs" "0 < cmp a b" for a b
      using Cons.prems(1) [of a b] that by simp
    show "cmp a c \<le> 0"
      if "a \<in> set xs" "b \<in> set xs" "c \<in> set xs" "cmp a b \<le> 0" "cmp b c \<le> 0" for a b c
      using Cons.prems(2) [of a b c] that by simp
  qed
  have "sorted_wrt (\<lambda>a b. cmp a b \<le> 0) (sort_insert cmp x (Array_sort cmp xs))"
  proof (rule sorted_sort_insert)
    show "cmp y x \<le> 0" if "y \<in> set (Array_sort cmp xs)" "0 < cmp x y" for y
      using Cons.prems(1) [of x y] that by (simp add: set_Array_sort)
    show "cmp x z \<le> 0"
      if "y \<in> set (Array_sort cmp xs)" "z \<in> set (Array_sort cmp xs)" "cmp x y \<le> 0" "cmp y z \<le> 0"
      for y z
      using Cons.prems(2) [of x y z] that by (simp add: set_Array_sort)
    show "sorted_wrt (\<lambda>a b. cmp a b \<le> 0) (Array_sort cmp xs)"
      by (rule ih)
  qed
  then show ?case by simp
qed


text \<open>An element only passes elements that the comparator puts strictly before it.\<close>

lemma filter_sort_insert:
  assumes "\<And>y. y \<in> set xs \<Longrightarrow> P x \<Longrightarrow> P y \<Longrightarrow> cmp x y \<le> 0"
  shows "filter P (sort_insert cmp x xs) = filter P (x # xs)"
  using assms
proof (induction xs)
  case Nil
  show ?case by simp
next
  case (Cons y ys)
  have ih: "filter P (sort_insert cmp x ys) = filter P (x # ys)"
  proof (rule Cons.IH)
    show "cmp x z \<le> 0" if "z \<in> set ys" "P x" "P z" for z
      using Cons.prems [of z] that by simp
  qed
  show ?case
  proof (cases "0 < cmp x y")
    case True
    then have "\<not> (P x \<and> P y)"
      using Cons.prems [of y] by auto
    then show ?thesis using True ih by auto
  next
    case False
    then show ?thesis by simp
  qed
qed

lemma filter_Array_sort:
  assumes "\<And>x y. P x \<Longrightarrow> P y \<Longrightarrow> cmp x y \<le> 0"
  shows "filter P (Array_sort cmp xs) = filter P xs"
proof (induction xs)
  case Nil
  show ?case by simp
next
  case (Cons x xs)
  have "filter P (sort_insert cmp x (Array_sort cmp xs)) = filter P (x # Array_sort cmp xs)"
  proof (rule filter_sort_insert)
    show "cmp x y \<le> 0" if "P x" "P y" for y
      using assms [of x y] that by simp
  qed
  with Cons show ?case by simp
qed

text \<open>A list whose neighbours are in order is left as it is.\<close>

lemma successively_sort_insert:
  assumes anti: "\<And>a b. 0 < cmp a b \<Longrightarrow> cmp b a \<le> 0"
    and succ: "successively (\<lambda>a b. cmp a b \<le> 0) xs"
  shows "successively (\<lambda>a b. cmp a b \<le> 0) (sort_insert cmp x xs)"
  using succ
proof (induction xs)
  case Nil
  show ?case by simp
next
  case (Cons y ys)
  have succ_ys: "successively (\<lambda>a b. cmp a b \<le> 0) ys"
    using Cons.prems by (cases ys) simp_all
  have ih: "successively (\<lambda>a b. cmp a b \<le> 0) (sort_insert cmp x ys)"
    by (rule Cons.IH) (rule succ_ys)
  show ?case
  proof (cases "0 < cmp x y")
    case True
    have yx: "cmp y x \<le> 0" using anti [of x y] True by simp
    show ?thesis
    proof (cases ys)
      case Nil
      then show ?thesis using True yx by simp
    next
      case (Cons z zs)
      have yz: "cmp y z \<le> 0"
        using Cons.prems Cons by simp
      show ?thesis
      proof (cases "0 < cmp x z")
        case xz: True
        then show ?thesis using True yz ih Cons by simp
      next
        case xz: False
        then show ?thesis using True yx ih Cons by simp
      qed
    qed
  next
    case False
    then show ?thesis using Cons.prems by (cases ys) simp_all
  qed
qed

lemma successively_Array_sort:
  assumes "\<And>a b. 0 < cmp a b \<Longrightarrow> cmp b a \<le> 0"
  shows "successively (\<lambda>a b. cmp a b \<le> 0) (Array_sort cmp xs)"
proof (induction xs)
  case Nil
  show ?case by simp
next
  case (Cons x xs)
  have "successively (\<lambda>a b. cmp a b \<le> 0) (sort_insert cmp x (Array_sort cmp xs))"
    using assms Cons by (rule successively_sort_insert)
  then show ?case by simp
qed

lemma Array_sort_fixed:
  assumes "successively (\<lambda>a b. cmp a b \<le> 0) xs"
  shows "Array_sort cmp xs = xs"
  using assms
proof (induction xs)
  case Nil
  show ?case by simp
next
  case (Cons x xs)
  have "successively (\<lambda>a b. cmp a b \<le> 0) xs"
    using Cons.prems by (cases xs) simp_all
  then have "Array_sort cmp xs = xs"
    by (rule Cons.IH)
  then show ?case using Cons.prems by (cases xs) simp_all
qed

lemma Array_sort_idem:
  assumes "\<And>a b. 0 < cmp a b \<Longrightarrow> cmp b a \<le> 0"
  shows "Array_sort cmp (Array_sort cmp xs) = Array_sort cmp xs"
  using assms by (intro Array_sort_fixed successively_Array_sort)

lemma num_less_asym: "num_less a b \<Longrightarrow> \<not> num_less b a"
  by (cases a; cases b) simp_all

lemma num_less_irrefl: "\<not> num_less a a"
  by (cases a) simp_all

lemma dateCompare_anti: "0 < dateCompare eng key a b \<Longrightarrow> dateCompare eng key b a \<le> 0"
  by (simp add: dateCompare_def split: if_splits)

lemma dateCompare_le0: "dateCompare eng key a b \<le> 0 \<longleftrightarrow>
    \<not> num_less (Date_parse eng (key a)) (Date_parse eng (key b))"
  using num_less_asym [of "Date_parse eng (key a)" "Date_parse eng (key b)"]
  by (auto simp: dateCompare_def)

lemma num_less_trans_parsed:
  "a \<noteq> None \<Longrightarrow> b \<noteq> None \<Longrightarrow> c \<noteq> None \<Longrightarrow> \<not> num_less a b \<Longrightarrow> \<not> num_less b c \<Longrightarrow> \<not> num_less a c"
  by (cases a; cases b; cases c) auto

subsection \<open>Sorting by date\<close>

lemma sortByDate_mset: "mset (sortByDate eng array key) = mset array"
  by (simp add: sortByDate_def mset_Array_sort)

lemma sortByDate_ordered:
  assumes "all_parse eng key array"
  shows "ordered_by_date eng key (sortByDate eng array key)"
proof -
  have parsed: "Date_parse eng (key e) \<noteq> None" if "e \<in> set array" for e
    using assms that by (simp add: all_parse_def list_all_iff)
  have "sorted_wrt (\<lambda>a b. dateCompare eng key a b \<le> 0) (Array_sort (dateCompare eng key) array)"
  proof (rule sorted_Array_sort)
    fix x y assume "0 < dateCompare eng key x y"
    then show "dateCompare eng key y x \<le> 0" by (rule dateCompare_anti)
  next
    fix x y z
    assume "x \<in> set array" "y \<in> set array" "z \<in> set array"
      and "dateCompare eng key x y \<le> 0" "dateCompare eng key y z \<le> 0"
    then show "dateCompare eng key x z \<le> 0"
      unfolding dateCompare_le0
      using num_less_trans_parsed [of "Date_parse eng (key x)" "Date_parse eng (key y)"
          "Date_parse eng (key z)"] parsed [of x] parsed [of y] parsed [of z]
      by blast
  qed
  then show ?thesis
    by (simp add: ordered_by_date_def sortByDate_def dateCompare_le0)
qed

lemma sortByDate_stable:
  assumes "all_parse eng key array"
  shows "filter (\<lambda>e. Date_parse eng (key e) = t) (sortByDate eng array key)
     = filter (\<lambda>e. Date_parse eng (key e) = t) array"
  unfolding sortByDate_def
  by (rule filter_Array_sort) (simp add: dateCompare_def num_less_irrefl)

lemma successively_all_pairs:
  assumes "\<And>a b. a \<in> set xs \<Longrightarrow> b \<in> set xs \<Longrightarrow> P a b"
  shows "successively P xs"
  using assms
proof (induction xs rule: induct_list012)
  case 1
  show ?case by simp
next
  case (2 x)
  show ?case by simp
next
  case (3 x y zs)
  have "P x y"
    by (rule "3.prems") simp_all
  moreover have "successively P (y # zs)"
  proof (rule "3.IH"(2))
    show "P a b" if "a \<in> set (y # zs)" "b \<in> set (y # zs)" for a b
      using "3.prems" [of a b] that by simp
  qed
  ultimately show ?case by simp
qed

lemma sortByDate_none_parse:
  assumes "none_parse eng key array"
  shows "sortByDate eng array key = array"
  unfolding sortByDate_def
proof (rule Array_sort_fixed, rule successively_all_pairs)
  fix a b assume "a \<in> set array" "b \<in> set array"
  then have "Date_parse eng (key a) = None"
    using assms by (simp add: none_parse_def list_all_iff)
  then show "dateCompare eng key a b \<le> 0"
    by (simp add: dateCompare_def)
qed

text \<open>When every date parses, the three properties determine the result: whatever stable
  sorting algorithm an engine uses, it returns the list of the model.\<close>

lemma stable_sorted_is_sort_key:
  assumes parsed: "\<And>e. e \<in> set array \<Longrightarrow> Date_parse eng (key e) \<noteq> None"
    and perm: "mset ys = mset array"
    and ordered: "ordered_by_date eng key ys"
    and stable: "\<And>t. filter (\<lambda>e. Date_parse eng (key e) = t) ys
                     = filter (\<lambda>e. Date_parse eng (key e) = t) array"
  shows "sort_key (\<lambda>e. - the (Date_parse eng (key e))) array = ys"
proof (rule properties_for_sort_key)
  let ?f = "\<lambda>e. - the (Date_parse eng (key e))"
  have set_eq: "set ys = set array"
    using perm by (rule mset_eq_setD)
  have key_eq: "(?f k = ?f x) = (Date_parse eng (key x) = Date_parse eng (key k))"
    if "k \<in> set array" "x \<in> set array" for k x
    using parsed [OF that(1)] parsed [OF that(2)] by auto
  show "mset ys = mset array" by (rule perm)
  show "filter (\<lambda>x. ?f k = ?f x) ys = filter (\<lambda>x. ?f k = ?f x) array" if "k \<in> set ys" for k
  proof -
    have k: "k \<in> set array" using that set_eq by simp
    have "filter (\<lambda>x. ?f k = ?f x) ys = filter (\<lambda>e. Date_parse eng (key e) = Date_parse eng (key k)) ys"
    proof (rule filter_cong [OF refl])
      fix x assume "x \<in> set ys"
      then show "(?f k = ?f x) = (Date_parse eng (key x) = Date_parse eng (key k))"
        using key_eq [OF k, of x] set_eq by blast
    qed
    also have "\<dots> = filter (\<lambda>e. Date_parse eng (key e) = Date_parse eng (key k)) array"
      by (rule stable)
    also have "\<dots> = filter (\<lambda>x. ?f k = ?f x) array"
    proof (rule filter_cong [OF refl])
      fix x assume "x \<in> set array"
      then show "(Date_parse eng (key x) = Date_parse eng (key k)) = (?f k = ?f x)"
        using key_eq [OF k, of x] by blast
    qed
    finally show ?thesis .
  qed
  have "sorted_wrt (\<lambda>a b. ?f a \<le> ?f b) ys"
  proof (rule sorted_wrt_mono_rel [of ys "\<lambda>a b. \<not> num_less (Date_parse eng (key a)) (Date_parse eng (key b))"])
    fix a b assume "a \<in> set ys" "b \<in> set ys"
      and nl: "\<not> num_less (Date_parse eng (key a)) (Date_parse eng (key b))"
    then obtain x y where "Date_parse eng (key a) = Some x" "Date_parse eng (key b) = Some y"
      using parsed [of a] parsed [of b] set_eq by auto
    then show "?f a \<le> ?f b" using nl by simp
  next
    show "sorted_wrt (\<lambda>a b. \<not> num_less (Date_parse eng (key a)) (Date_parse eng (key b))) ys"
      using ordered by (simp add: ordered_by_date_def)
  qed
  then show "sorted (map ?f ys)"
    by (simp add: sorted_map)
qed

lemma sortByDate_unique:
  assumes "all_parse eng key array"
    and "mset ys = mset array"
    and "ordered_by_date eng key ys"
    and "\<And>t. filter (\<lambda>e. Date_parse eng (key e) = t) ys
             = filter (\<lambda>e. Date_parse eng (key e) = t) array"
  shows "ys = sortByDate eng array key"
proof -
  have parsed: "Date_parse eng (key e) \<noteq> None" if "e \<in> set array" for e
    using assms(1) that by (simp add: all_parse_def list_all_iff)
  have "sort_key (\<lambda>e. - the (Date_parse eng (key e))) array = ys"
    using parsed assms(2-4) by (rule stable_sorted_is_sort_key)
  moreover have "sort_key (\<lambda>e. - the (Date_parse eng (key e))) array = sortByDate eng array key"
    using parsed sortByDate_mset sortByDate_ordered [OF assms(1)] sortByDate_stable [OF assms(1)]
    by (rule stable_sorted_is_sort_key)
  ultimately show ?thesis by simp
qed

text \<open>Sorting the result once more changes nothing when every date parses or none does, the
  arrays on which the comparator is consistent.\<close>

lemma sortByDate_twice:
  assumes "all_parse eng key array \<or> none_parse eng key array"
  shows "sortByDate eng (sortByDate eng array key) key = sortByDate eng array key"
  unfolding sortByDate_def by (rule Array_sort_idem) (rule dateCompare_anti)

subsection \<open>Sorting by title\<close>

lemma collate_le0: "collate a b \<le> 0 \<longleftrightarrow> collation_key a \<le> collation_key b"
  by (auto simp: collate_def)

lemma collate_consistent: "consistent_comparator collate"
  unfolding consistent_comparator_def collate_le0
  by (auto simp: collate_def split: if_splits)

lemma sorted_by_consistent:
  assumes "consistent_comparator cmp"
  shows "sorted_wrt (\<lambda>a b. cmp a b \<le> 0) (Array_sort cmp xs)"
proof (rule sorted_Array_sort)
  show "cmp y x \<le> 0" if "0 < cmp x y" for x y
    using assms that unfolding consistent_comparator_def by blast
  show "cmp x z \<le> 0" if "cmp x y \<le> 0" "cmp y z \<le> 0" for x y z
    using assms that unfolding consistent_comparator_def by blast
qed

lemma titleCompare_consistent:
  "consistent_comparator (localeCompare eng) \<Longrightarrow> consistent_comparator (titleCompare eng)"
  unfolding consistent_comparator_def titleCompare_def by blast

subsection \<open>Text replacement\<close>

lemma take_window:
  assumes "pat \<noteq> []"
  shows "take (length pat) (a # u @ pat @ v) = take (length pat) (a # u @ butlast pat)"
proof -
  have "pat @ v = butlast pat @ (last pat # v)"
    using assms by simp
  then have "a # u @ pat @ v = (a # u @ butlast pat) @ (last pat # v)"
    by simp
  moreover have "length pat \<le> length (a # u @ butlast pat)"
    by simp
  ultimately show ?thesis
    by (simp only: take_append take_all_iff) simp
qed

lemma replace_first_at_first_occurrence:
  assumes "pat \<noteq> []" and "\<not> occurs pat (u @ butlast pat)"
  shows "replace_first pat rep (u @ pat @ v) = u @ rep @ v"
  using assms(2)
proof (induction u)
  case Nil
  obtain c cs where pc: "pat = c # cs"
    using assms(1) by (cases pat) auto
  then show ?case by simp
next
  case (Cons a u)
  have no_here: "take (length pat) (a # u @ butlast pat) \<noteq> pat"
    and no_later: "\<not> occurs pat (u @ butlast pat)"
    using Cons.prems by simp_all
  have "take (length pat) (a # u @ pat @ v) \<noteq> pat"
    using no_here take_window [OF assms(1), of a u v] by simp
  then show ?case
    using Cons.IH [OF no_later] by simp
qed

lemma replace_first_no_occurrence:
  "\<not> occurs pat s \<Longrightarrow> replace_first pat rep s = s"
  by (induction s) auto

lemma replace_first_not_global: "replace_first ''..'' ''@'' ''a..b..c'' = ''a@b..c''"
  by simp

lemma join_comma_separated: "join '', '' ns = comma_separated ns"
  by (induction ns rule: induct_list012) simp_all

lemma filter_partition_mset: "mset (filter P xs) + mset (filter (\<lambda>x. \<not> P x) xs) = mset xs"
  by (induction xs) simp_all

subsection \<open>What \<^verbatim>\<open>render\<close> does to the context\<close>

lemma render_data_after:
  "data_after (render eng tmp_exists texPreamble texPostamble d) =
     d\<lparr>data_cv := (data_cv d)\<lparr>cv_refereeing := Array_sort default_compare (cv_refereeing (data_cv d))\<rparr>,
       projects_academic := academic_list eng d\<rparr>"
  by (simp add: render_def texBody_def)

text \<open>All collections but the referee list and the academic projects are as before.\<close>

lemma render_leaves_other_collections:
  assumes "d' = data_after (render eng tmp_exists texPreamble texPostamble d)"
  shows "data_site d' = data_site d"
    and "cv_education (data_cv d') = cv_education (data_cv d)"
    and "cv_presentations (data_cv d') = cv_presentations (data_cv d)"
    and "cv_awards (data_cv d') = cv_awards (data_cv d)"
    and "cv_researchexp (data_cv d') = cv_researchexp (data_cv d)"
    and "cv_references (data_cv d') = cv_references (data_cv d)"
    and "collections_papers d' = collections_papers d"
    and "projects_professional d' = projects_professional d"
    and "projects_personal d' = projects_personal d"
  using assms by (simp_all add: render_data_after)

subsection \<open>Claims\<close>

text \<open>
  C1.  The papers rendered under "Publications" (those selected by the \<^verbatim>\<open>accepted\<close> flag)
  and the papers rendered under "Working Papers" (those not selected) partition the
  collection of papers: together they are the collection, each paper as often as it occurs
  there, and no paper is in both.
\<close>

theorem papers_partition:
  "mset (publications d) + mset (working_papers d) = mset (collections_papers d)
   \<and> set (publications d) \<inter> set (working_papers d) = {}"
  by (auto simp: publications_def working_papers_def where_filter_def where_not_def
      filter_partition_mset)

text \<open>
  C2 (amended).  For every array and every date field, \<^verbatim>\<open>sortByDate\<close> returns a permutation
  of the entries: the same entries, each as often as before, so the same number of them.
  When the field of every entry parses as a date, the result is in reverse chronological
  order and entries with equal dates keep their original relative order.  When no entry has
  a field that parses, the result is the original sequence.  (An entry whose field does not
  parse compares 0 with every other entry; between parsable entries on either side of it the
  sort establishes no order, as the example after the theorem shows.)
\<close>

theorem sortByDate_permutation_sorted:
  "mset (sortByDate eng array key) = mset array
   \<and> length (sortByDate eng array key) = length array
   \<and> (all_parse eng key array \<longrightarrow>
        ordered_by_date eng key (sortByDate eng array key)
        \<and> (\<forall>t. filter (\<lambda>e. Date_parse eng (key e) = t) (sortByDate eng array key)
               = filter (\<lambda>e. Date_parse eng (key e) = t) array))
   \<and> (none_parse eng key array \<longrightarrow> sortByDate eng array key = array)"
  using sortByDate_mset [of eng array key] sortByDate_ordered [of eng key array]
    sortByDate_stable [of eng key array] sortByDate_none_parse [of eng key array]
  by (simp add: sortByDate_def length_Array_sort)

theorem sortByDate_permutation_sorted_witness:
  "all_parse engine_utc award_date
     [award_on ''First'' ''2018-05-01'', award_on ''Second'' ''2020-01-01'', award_on ''Third'' ''2018-05-01'']
   \<and> sortByDate engine_utc
       [award_on ''First'' ''2018-05-01'', award_on ''Second'' ''2020-01-01'', award_on ''Third'' ''2018-05-01'']
       award_date
     = [award_on ''Second'' ''2020-01-01'', award_on ''First'' ''2018-05-01'', award_on ''Third'' ''2018-05-01'']
   \<and> ordered_by_date engine_utc award_date
       (sortByDate engine_utc
         [award_on ''First'' ''2018-05-01'', award_on ''Second'' ''2020-01-01'', award_on ''Third'' ''2018-05-01'']
         award_date)
   \<and> none_parse engine_utc award_date
       [award_from_to ''Assistant'' ''2019-01-01'' ''2019-06-01'', award_from_to ''Fellow'' ''2020-01-01'' ''2021-06-01'']
   \<and> sortByDate engine_utc
       [award_from_to ''Assistant'' ''2019-01-01'' ''2019-06-01'', award_from_to ''Fellow'' ''2020-01-01'' ''2021-06-01'']
       award_date
     = [award_from_to ''Assistant'' ''2019-01-01'' ''2019-06-01'', award_from_to ''Fellow'' ''2020-01-01'' ''2021-06-01'']"
proof -
  have parse: "all_parse engine_utc award_date
     [award_on ''First'' ''2018-05-01'', award_on ''Second'' ''2020-01-01'', award_on ''Third'' ''2018-05-01'']"
    by code_simp
  have sorted: "sortByDate engine_utc
       [award_on ''First'' ''2018-05-01'', award_on ''Second'' ''2020-01-01'', award_on ''Third'' ''2018-05-01'']
       award_date
     = [award_on ''Second'' ''2020-01-01'', award_on ''First'' ''2018-05-01'', award_on ''Third'' ''2018-05-01'']"
    by code_simp
  have none: "none_parse engine_utc award_date
       [award_from_to ''Assistant'' ''2019-01-01'' ''2019-06-01'', award_from_to ''Fellow'' ''2020-01-01'' ''2021-06-01'']"
    by code_simp
  show ?thesis
    using parse sorted none
      sortByDate_permutation_sorted [of engine_utc
        "[award_on ''First'' ''2018-05-01'', award_on ''Second'' ''2020-01-01'', award_on ''Third'' ''2018-05-01'']"
        award_date]
      sortByDate_permutation_sorted [of engine_utc
        "[award_from_to ''Assistant'' ''2019-01-01'' ''2019-06-01'', award_from_to ''Fellow'' ''2020-01-01'' ''2021-06-01'']"
        award_date]
    by simp
qed

text \<open>The claim as first stated, reverse chronological order for every array, fails on three
  awards of which the second has a start and an end but no \<^verbatim>\<open>date\<close>: every comparison with
  it gives 0, the array stays as it is, and 2018 stays in front of 2020.\<close>

theorem sortByDate_unparsable_counterexample:
  "\<not> ordered_by_date engine_utc award_date
       (sortByDate engine_utc
         [award_on ''Travel grant'' ''2018-05-01'',
          award_from_to ''Research assistant'' ''2019-01-01'' ''2019-06-01'',
          award_on ''Best Paper Award'' ''2020-01-01'']
         award_date)"
  by code_simp

text \<open>
  C4.  The renderer is to leave every collection of the context as it found it.  It does
  not: \<^verbatim>\<open>data.cv.refereeing.sort()\<close> sorts the array of the context itself, where
  \<^verbatim>\<open>sortByDate\<close> takes a copy first.  A referee list that is not in order before the call is
  in order after it.
\<close>

theorem render_sorts_refereeing_in_place:
  "cv_refereeing (data_cv (data_after (render engine_utc True [] []
      (empty_data\<lparr>data_cv := (data_cv empty_data)\<lparr>cv_refereeing := [''Journal B'', ''Journal A'']\<rparr>\<rparr>))))
   = [''Journal A'', ''Journal B'']"
  by code_simp

text \<open>
  C5.  When the compiler exits with code 0 the listener makes exactly one rename, from
  \<^verbatim>\<open>./tmp/cv.pdf\<close> to \<^verbatim>\<open>./dist/cv.pdf\<close>.  With any other code it makes no rename, writes
  exactly one log line and throws nothing.  The value that \<^verbatim>\<open>render\<close> returns is
  \<^verbatim>\<open>undefined\<close> whatever the compiler does.
\<close>

theorem on_close_relocation:
  "filter is_rename (fst (on_close (Some 0) rename_err)) = [FsRename ''./tmp/cv.pdf'' ''./dist/cv.pdf'']
   \<and> (code \<noteq> Some 0 \<longrightarrow>
        filter is_rename (fst (on_close code rename_err)) = []
        \<and> filter is_log (fst (on_close code rename_err))
            = [ConsoleLog (''LuaLaTeX process exited with code '' @ codeToString code @ ''.'')]
        \<and> length (fst (on_close code rename_err)) = 1
        \<and> \<not> snd (on_close code rename_err))
   \<and> return_value (render eng tmp_exists texPreamble texPostamble d) = JUndefined"
  by (simp add: on_close_def rename_callback_def render_def split: prod.split)

theorem on_close_relocation_witness:
  "Some 1 \<noteq> Some (0 :: int)
   \<and> fst (on_close (Some 1) False) = [ConsoleLog ''LuaLaTeX process exited with code 1.'']
   \<and> filter is_rename (fst (on_close (Some 0) False)) = [FsRename ''./tmp/cv.pdf'' ''./dist/cv.pdf'']"
  using on_close_relocation [of False "Some 1" engine_utc True "[]" "[]" empty_data]
  by (simp add: on_close_def codeToString_def intToString_def digits.simps digit_char_def)

text \<open>
  C6.  An award with the title as its only descriptive field and \<^verbatim>\<open>date = "2020-01-01"\<close> is
  to render with the year 2020.  The text is read as midnight UTC, and \<^verbatim>\<open>getFullYear()\<close>
  gives the year of the local time: on a host west of UTC that is still 2019.
\<close>

theorem texAwards_new_year_date_west_of_utc:
  "texAwards engine_utc_minus5 [award_on ''Best Paper Award'' ''2020-01-01'']
   = ''Best Paper Award '' @ bs # ''dateright{2019}''"
  by code_simp

text \<open>On a host whose clock is UTC the same award renders as the claim says.\<close>

lemma texAwards_new_year_date_utc:
  "texAwards engine_utc [award_on ''Best Paper Award'' ''2020-01-01'']
   = ''Best Paper Award '' @ bs # ''dateright{2020}''"
  by code_simp

text \<open>
  C7.  The papers formatter renders a co-author annotation exactly when the paper has more
  than one author.  The annotation is \<^verbatim>\<open> (with \<close>, the names of the authors other than the
  profile owner separated by a comma and a space, and \<^verbatim>\<open>)\<close>; it stands right behind the
  title of the paper, before the journal line.  A paper with a single author has no
  annotation: the journal line follows the title at once.
\<close>

theorem withString_coauthors:
  "(withString s p \<noteq> [] \<longleftrightarrow> 1 < length (paper_authors p))
   \<and> (1 < length (paper_authors p) \<longrightarrow>
        withString s p = '' (with ''
          @ comma_separated (map (\<lambda>a. joinItem (author_name a))
               (filter (\<lambda>a. author_name a \<noteq> site_title s) (paper_authors p)))
          @ '')''
        \<and> texPaper s p =
            bs # ''cvsubsection{'' @ bs # ''href{'' @ site_url s @ toString (paper_url p) @ ''}{''
            @ [bq, bq] @ toString (paper_title p) @ [sq, sq] @ ''}}''
            @ '' (with ''
            @ comma_separated (map (\<lambda>a. joinItem (author_name a))
                 (filter (\<lambda>a. author_name a \<noteq> site_title s) (paper_authors p)))
            @ '')''
            @ journalString p
            @ blank_line @ bs # ''begin{markdown}'' @ toString (paper_content p) @ bs # ''end{markdown}''
            @ nl # indent10)
   \<and> (length (paper_authors p) \<le> 1 \<longrightarrow>
        withString s p = []
        \<and> texPaper s p =
            bs # ''cvsubsection{'' @ bs # ''href{'' @ site_url s @ toString (paper_url p) @ ''}{''
            @ [bq, bq] @ toString (paper_title p) @ [sq, sq] @ ''}}''
            @ journalString p
            @ blank_line @ bs # ''begin{markdown}'' @ toString (paper_content p) @ bs # ''end{markdown}''
            @ nl # indent10)"
  by (simp add: withString_def texPaper_def joinVals_def where_not_value_def comp_def
      join_comma_separated)

theorem withString_coauthors_witness:
  "1 < length (paper_authors (paper_by [''Matt Thomas'', ''Jane Doe'', ''Bob Roe'']))
   \<and> withString empty_site (paper_by [''Matt Thomas'', ''Jane Doe'', ''Bob Roe''])
       = '' (with Jane Doe, Bob Roe)''
   \<and> 1 < length (paper_authors (paper_by [''Ann Poe'', ''Jane Doe'', ''Matt Thomas'', ''Bob Roe'']))
   \<and> texPaper empty_site (paper_by [''Ann Poe'', ''Jane Doe'', ''Matt Thomas'', ''Bob Roe''])
       = bs # ''cvsubsection{'' @ bs # ''href{/papers/one/}{'' @ [bq, bq] @ ''One'' @ [sq, sq]
         @ ''}} (with Ann Poe, Jane Doe, Bob Roe)''
         @ blank_line @ bs # ''begin{markdown}'' @ bs # ''end{markdown}'' @ nl # indent10
   \<and> 1 < length (paper_authors (paper_by [''Matt Thomas'', ''Jane Doe'']))
   \<and> withString empty_site (paper_by [''Matt Thomas'', ''Jane Doe'']) = '' (with Jane Doe)''
   \<and> length (paper_authors (paper_by [''Matt Thomas''])) \<le> 1
   \<and> withString empty_site (paper_by [''Matt Thomas'']) = []
   \<and> texPaper empty_site (paper_by [''Matt Thomas''])
       = bs # ''cvsubsection{'' @ bs # ''href{/papers/one/}{'' @ [bq, bq] @ ''One'' @ [sq, sq] @ ''}}''
         @ blank_line @ bs # ''begin{markdown}'' @ bs # ''end{markdown}'' @ nl # indent10"
  using withString_coauthors [of empty_site "paper_by [''Matt Thomas'', ''Jane Doe'', ''Bob Roe'']"]
    withString_coauthors [of empty_site "paper_by [''Ann Poe'', ''Jane Doe'', ''Matt Thomas'', ''Bob Roe'']"]
    withString_coauthors [of empty_site "paper_by [''Matt Thomas'', ''Jane Doe'']"]
    withString_coauthors [of empty_site "paper_by [''Matt Thomas'']"]
  by (simp add: paper_by_def empty_site_def journalString_def)

text \<open>
  C8.  The references formatter replaces the first occurrence of \<^verbatim>\<open>..\<close> in the stored email
  by \<^verbatim>\<open>@\<close> and nothing else: if the email is \<open>u\<close>, then \<^verbatim>\<open>..\<close>, then \<open>v\<close>, with no
  occurrence that starts inside \<open>u\<close>, the address is \<open>u\<close>, then \<^verbatim>\<open>@\<close>, then \<open>v\<close>, whatever
  \<open>v\<close> contains; an email without \<^verbatim>\<open>..\<close> is left as it is.  The same address is the
  target of the \<^verbatim>\<open>mailto\<close> link and its visible text.
\<close>

theorem texReference_email:
  "(reference_email r = u @ ''..'' @ v \<and> \<not> occurs ''..'' (u @ ''.'') \<longrightarrow>
      replace_first ''..'' ''@'' (reference_email r) = u @ ''@'' @ v
      \<and> texReference r =
          bs # ''cvsubsection{'' @ bs # ''href{'' @ toString (reference_url r) @ ''}{''
          @ toString (reference_title r) @ ''}}''
          @ nl # indent10 @ nl # indent10
          @ bs # ''cvsubsubsection{'' @ toString (reference_description r) @ ''}''
          @ nl # indent10 @ nl # indent10
          @ bs # ''href{mailto:'' @ (u @ ''@'' @ v) @ ''}{'' @ (u @ ''@'' @ v) @ ''}'')
   \<and> (\<not> occurs ''..'' (reference_email r) \<longrightarrow>
        replace_first ''..'' ''@'' (reference_email r) = reference_email r)"
proof (intro conjI impI)
  assume h: "reference_email r = u @ ''..'' @ v \<and> \<not> occurs ''..'' (u @ ''.'')"
  have "replace_first ''..'' ''@'' (u @ ''..'' @ v) = u @ ''@'' @ v"
    by (rule replace_first_at_first_occurrence) (use h in simp_all)
  then show e: "replace_first ''..'' ''@'' (reference_email r) = u @ ''@'' @ v"
    using h by simp
  show "texReference r =
          bs # ''cvsubsection{'' @ bs # ''href{'' @ toString (reference_url r) @ ''}{''
          @ toString (reference_title r) @ ''}}''
          @ nl # indent10 @ nl # indent10
          @ bs # ''cvsubsubsection{'' @ toString (reference_description r) @ ''}''
          @ nl # indent10 @ nl # indent10
          @ bs # ''href{mailto:'' @ (u @ ''@'' @ v) @ ''}{'' @ (u @ ''@'' @ v) @ ''}''"
    unfolding texReference_def e by simp
next
  assume "\<not> occurs ''..'' (reference_email r)"
  then show "replace_first ''..'' ''@'' (reference_email r) = reference_email r"
    by (rule replace_first_no_occurrence)
qed

theorem texReference_email_witness:
  "reference_email \<lparr>reference_url = JStr ''https://example.org'', reference_title = JStr ''Jane Doe'',
       reference_description = JStr ''Professor'', reference_email = ''jane..doe.com''\<rparr>
     = ''jane'' @ ''..'' @ ''doe.com''
   \<and> \<not> occurs ''..'' (''jane'' @ ''.'')
   \<and> texReference \<lparr>reference_url = JStr ''https://example.org'', reference_title = JStr ''Jane Doe'',
       reference_description = JStr ''Professor'', reference_email = ''jane..doe.com''\<rparr>
     = bs # ''cvsubsection{'' @ bs # ''href{https://example.org}{Jane Doe}}''
       @ nl # indent10 @ nl # indent10 @ bs # ''cvsubsubsection{Professor}''
       @ nl # indent10 @ nl # indent10 @ bs # ''href{mailto:jane@doe.com}{jane@doe.com}''"
  using texReference_email [of "\<lparr>reference_url = JStr ''https://example.org'',
       reference_title = JStr ''Jane Doe'', reference_description = JStr ''Professor'',
       reference_email = ''jane..doe.com''\<rparr>" "''jane''" "''doe.com''"]
  by simp

text \<open>
  C9 (amended).  The two lists passed to the list formatter are sorted by title in the order
  of \<^verbatim>\<open>String.prototype.localeCompare\<close>, the collation of the engine and its host: whenever
  that comparison is consistent, an entry that stands before another is not after it in
  that order, and each list has exactly the entries of its input.
\<close>

theorem software_lists_sorted_by_localeCompare:
  "consistent_comparator (localeCompare eng) \<longrightarrow>
     sorted_wrt (\<lambda>a b. localeCompare eng (project_title a) (project_title b) \<le> 0) (academic_list eng d)
     \<and> sorted_wrt (\<lambda>a b. localeCompare eng (project_title a) (project_title b) \<le> 0) (other_list eng d)
     \<and> mset (academic_list eng d) = mset (projects_academic d)
     \<and> mset (other_list eng d) = mset (projects_professional d) + mset (projects_personal d)"
proof
  assume "consistent_comparator (localeCompare eng)"
  then have c: "consistent_comparator (titleCompare eng)"
    by (rule titleCompare_consistent)
  have "sorted_wrt (\<lambda>a b. titleCompare eng a b \<le> 0) (Array_sort (titleCompare eng) xs)" for xs
    using c by (rule sorted_by_consistent)
  then show "sorted_wrt (\<lambda>a b. localeCompare eng (project_title a) (project_title b) \<le> 0) (academic_list eng d)
     \<and> sorted_wrt (\<lambda>a b. localeCompare eng (project_title a) (project_title b) \<le> 0) (other_list eng d)
     \<and> mset (academic_list eng d) = mset (projects_academic d)
     \<and> mset (other_list eng d) = mset (projects_professional d) + mset (projects_personal d)"
    by (simp add: academic_list_def other_list_def titleCompare_def mset_Array_sort)
qed

theorem software_lists_sorted_by_localeCompare_witness:
  "consistent_comparator (localeCompare engine_utc)
   \<and> academic_list engine_utc
        (empty_data\<lparr>projects_academic := [project_titled ''econ2'', project_titled ''Econ'', project_titled ''econ_tools'']\<rparr>)
      = [project_titled ''Econ'', project_titled ''econ_tools'', project_titled ''econ2'']
   \<and> sorted_wrt (\<lambda>a b. localeCompare engine_utc (project_title a) (project_title b) \<le> 0)
        (academic_list engine_utc
          (empty_data\<lparr>projects_academic := [project_titled ''econ2'', project_titled ''Econ'', project_titled ''econ_tools'']\<rparr>))"
proof -
  have c: "consistent_comparator (localeCompare engine_utc)"
    by (simp add: engine_utc_def collate_consistent)
  have e: "academic_list engine_utc
        (empty_data\<lparr>projects_academic := [project_titled ''econ2'', project_titled ''Econ'', project_titled ''econ_tools'']\<rparr>)
      = [project_titled ''Econ'', project_titled ''econ_tools'', project_titled ''econ2'']"
    by code_simp
  show ?thesis
    using c e software_lists_sorted_by_localeCompare [of engine_utc
        "empty_data\<lparr>projects_academic := [project_titled ''econ2'', project_titled ''Econ'', project_titled ''econ_tools'']\<rparr>"]
    by simp
qed

text \<open>The order need not be the case-insensitive lexical one.  A collation that puts
  punctuation before digits sorts \<^verbatim>\<open>econ_tools\<close> before \<^verbatim>\<open>econ2\<close>, whereas the
  character \<^verbatim>\<open>2\<close> is smaller than the character \<^verbatim>\<open>_\<close>.\<close>

theorem software_list_not_case_insensitive_counterexample:
  "\<not> ci_sorted (map project_title (academic_list engine_utc
        (empty_data\<lparr>projects_academic := [project_titled ''econ2'', project_titled ''econ_tools'']\<rparr>)))"
  by code_simp

text \<open>
  C10 (amended).  \<^verbatim>\<open>getYear\<close> raises nothing on a value of the data context (\<^verbatim>\<open>undefined\<close>,
  \<^verbatim>\<open>null\<close>, a boolean, a number, a string): the call returns the value of \<open>getYear\<close>.  That
  value is \<^verbatim>\<open>NaN\<close> in exactly these cases: the input is \<^verbatim>\<open>undefined\<close>; it is a number beyond
  8640000000000000 in magnitude; it is a string that is no date of the standard date-only
  format and that the engine's own parser rejects or reads as a time beyond that magnitude.
  A formatter then writes the text \<^verbatim>\<open>NaN\<close> into the date annotation.  \<^verbatim>\<open>null\<close>,
  \<^verbatim>\<open>false\<close>, \<^verbatim>\<open>true\<close> and every other number are taken as milliseconds since the beginning of
  1970, and \<^verbatim>\<open>getYear\<close> returns the year of that moment.
\<close>

theorem getYear_total_NaN_cases:
  "getYear_call eng (Data v) = Inr (getYear eng v)
   \<and> (getYear eng v = None \<longleftrightarrow>
        (case v of
           JUndefined \<Rightarrow> True
         | JNull \<Rightarrow> False
         | JBool b \<Rightarrow> False
         | JNum n \<Rightarrow> 8640000000000000 < \<bar>sint n\<bar>
         | JStr s \<Rightarrow>
             parseDateOnly s = None
             \<and> (case parseFallback eng s of None \<Rightarrow> True | Some t \<Rightarrow> 8640000000000000 < \<bar>t\<bar>)))
   \<and> getYear eng JNull = Some (YearFromTime (localTZA eng 0))
   \<and> getYear eng (JBool False) = Some (YearFromTime (localTZA eng 0))
   \<and> getYear eng (JBool True) = Some (YearFromTime (1 + localTZA eng 1))
   \<and> (\<bar>sint n\<bar> \<le> 8640000000000000 \<longrightarrow>
        getYear eng (JNum n) = Some (YearFromTime (sint n + localTZA eng (sint n))))
   \<and> (getYear eng (degree_start d) = None \<longrightarrow>
        texDegree eng d =
          bs # ''cvsubsubsection{'' @ toString (degree_title d) @ ''} '' @ bs # ''dateright{NaN--''
          @ numToString (getYear eng (degree_end d)) @ ''}'')
   \<and> (getYear eng (pres_date pr) = None \<longrightarrow>
        texPresentation eng pr = toString (pres_where pr) @ '' '' @ bs # ''dateright{NaN}'')"
proof -
  have call: "getYear_call eng (Data v) = Inr (getYear eng v)"
    by (cases v) (simp_all add: getYear_call_def getYear_def)
  have nan: "getYear eng v = None \<longleftrightarrow>
        (case v of
           JUndefined \<Rightarrow> True
         | JNull \<Rightarrow> False
         | JBool b \<Rightarrow> False
         | JNum n \<Rightarrow> 8640000000000000 < \<bar>sint n\<bar>
         | JStr s \<Rightarrow>
             parseDateOnly s = None
             \<and> (case parseFallback eng s of None \<Rightarrow> True | Some t \<Rightarrow> 8640000000000000 < \<bar>t\<bar>))"
    by (cases v)
      (simp_all add: getYear_def getFullYear_def TimeClip_def Date_parse_def split: option.splits)
  have others: "getYear eng JNull = Some (YearFromTime (localTZA eng 0))"
    "getYear eng (JBool False) = Some (YearFromTime (localTZA eng 0))"
    "getYear eng (JBool True) = Some (YearFromTime (1 + localTZA eng 1))"
    "\<bar>sint n\<bar> \<le> 8640000000000000 \<longrightarrow>
        getYear eng (JNum n) = Some (YearFromTime (sint n + localTZA eng (sint n)))"
    by (simp_all add: getYear_def getFullYear_def TimeClip_def)
  have texts: "getYear eng (degree_start d) = None \<longrightarrow>
        texDegree eng d =
          bs # ''cvsubsubsection{'' @ toString (degree_title d) @ ''} '' @ bs # ''dateright{NaN--''
          @ numToString (getYear eng (degree_end d)) @ ''}''"
    "getYear eng (pres_date pr) = None \<longrightarrow>
        texPresentation eng pr = toString (pres_where pr) @ '' '' @ bs # ''dateright{NaN}''"
    by (simp_all add: texDegree_def texPresentation_def numToString_def)
  show ?thesis
    using call nan others texts by blast
qed

theorem getYear_total_NaN_cases_witness:
  "getYear_call engine_utc (Data (JStr ''expected'')) = Inr None
   \<and> getYear engine_utc (JStr ''2022-06-01'') = Some 2022
   \<and> getYear engine_utc (JStr ''2022-06-31'') = None
   \<and> \<bar>sint (8640000000000000 :: 54 word)\<bar> \<le> 8640000000000000
   \<and> getYear engine_utc (JNum 8640000000000000) = Some 275760
   \<and> getYear engine_utc (JNum 8640000000000001) = None
   \<and> getYear engine_utc (degree_start (degree_from_to JUndefined (JStr ''2022-06-01''))) = None
   \<and> texDegree engine_utc (degree_from_to JUndefined (JStr ''2022-06-01''))
      = bs # ''cvsubsubsection{PhD} '' @ bs # ''dateright{NaN--2022}''
   \<and> getYear engine_utc (pres_date \<lparr>pres_where = JStr ''Econometric Society'', pres_date = JStr ''expected''\<rparr>) = None
   \<and> texPresentation engine_utc \<lparr>pres_where = JStr ''Econometric Society'', pres_date = JStr ''expected''\<rparr>
      = ''Econometric Society '' @ bs # ''dateright{NaN}''"
proof -
  have a: "parseDateOnly ''expected'' = None" "parseDateOnly ''2022-06-31'' = None"
    "parseFallback engine_utc = (\<lambda>s. None)" "localTZA engine_utc = (\<lambda>t. 0)"
    by (code_simp, code_simp, simp_all add: engine_utc_def)
  have b: "getYear engine_utc (JStr ''2022-06-01'') = Some 2022"
    by code_simp
  have c: "sint (8640000000000000 :: 54 word) = 8640000000000000"
    "sint (8640000000000001 :: 54 word) = 8640000000000001"
    by code_simp+
  have d: "YearFromTime 8640000000000000 = 275760"
    by code_simp
  show ?thesis
    using a b c d
      getYear_total_NaN_cases [of engine_utc "JStr ''expected''" "8640000000000000"
        "degree_from_to JUndefined (JStr ''2022-06-01'')"
        "\<lparr>pres_where = JStr ''Econometric Society'', pres_date = JStr ''expected''\<rparr>"]
      getYear_total_NaN_cases [of engine_utc "JStr ''2022-06-31''" "8640000000000001"]
      getYear_total_NaN_cases [of engine_utc "JNum 8640000000000001"]
      getYear_total_NaN_cases [of engine_utc "JUndefined"]
    by (simp add: degree_from_to_def numToString_def intToString_def digits.simps digit_char_def)
qed

text \<open>The claim as first stated, \<^verbatim>\<open>NaN\<close> for every input that does not parse as a calendar
  date, fails on \<^verbatim>\<open>null\<close>, the value of a key that a data file leaves empty.  \<^verbatim>\<open>Date.parse\<close>
  does not read it as a date, but \<^verbatim>\<open>new Date(null)\<close> is the beginning of 1970, and a degree
  without a start renders with the year 1970.\<close>

theorem getYear_null_counterexample:
  "Date_parse engine_utc JNull = None
   \<and> getYear engine_utc JNull = Some 1970
   \<and> texDegree engine_utc (degree_from_to JNull (JStr ''2022-06-01''))
      = bs # ''cvsubsubsection{PhD} '' @ bs # ''dateright{1970--2022}''"
  by code_simp

end
